theory Spec2Isabelle
  imports Complex_Main "HOL-Library.Product_Lexorder" "HOL-Library.Char_ord" "HOL-Library.List_Lexorder"
begin

section \<open>JavaScript values used by the request handlers\<close>

text \<open>
  A JavaScript number is a finite value, one of the two infinities, or NaN. Finite values
  are modelled as reals: the rounding and the overflow of IEEE doubles are not modelled,
  and \<open>-0\<close> is identified with \<open>0\<close> (both are falsy and compare equal).
\<close>

datatype jsnum = NaN | PosInf | NegInf | Fin real

text \<open>Truthiness of a number (\<open>if (x)\<close>, \<open>x && y\<close>, \<open>x || y\<close>): NaN and 0 are falsy.\<close>

definition truthy_num :: "jsnum \<Rightarrow> bool" where
  "truthy_num n = (n \<noteq> NaN \<and> n \<noteq> Fin 0)"

text \<open>\<open>a || b\<close> on numbers.\<close>

definition js_or :: "jsnum \<Rightarrow> jsnum \<Rightarrow> jsnum" where
  "js_or a b = (if truthy_num a then a else b)"

definition isNaN :: "jsnum \<Rightarrow> bool" where
  "isNaN n = (n = NaN)"

text \<open>\<open>a <= b\<close> on numbers: every comparison with NaN is false.\<close>

fun js_le :: "jsnum \<Rightarrow> jsnum \<Rightarrow> bool" where
  "js_le NaN _ = False"
| "js_le _ NaN = False"
| "js_le NegInf _ = True"
| "js_le _ PosInf = True"
| "js_le PosInf _ = False"
| "js_le _ NegInf = False"
| "js_le (Fin a) (Fin b) = (a \<le> b)"

text \<open>\<open>a >= b\<close>.\<close>

definition js_ge :: "jsnum \<Rightarrow> jsnum \<Rightarrow> bool" where
  "js_ge a b = js_le b a"

subsection \<open>Query-string values and the numeric built-ins\<close>

text \<open>
  A query parameter as Express hands it over: absent (\<open>undefined\<close>), one string, or an
  array of strings when the key is repeated. Environment variables are absent or a string.
  Strings are modelled as ASCII.
\<close>

datatype qparam = QAbsent | QStr string | QArr "string list"

fun join_comma :: "string list \<Rightarrow> string" where
  "join_comma [] = []"
| "join_comma [x] = x"
| "join_comma (x # y # ys) = x @ '','' @ join_comma (y # ys)"

text \<open>\<open>ToString\<close>, which \<open>parseFloat\<close> and \<open>parseInt\<close> apply to their argument first.\<close>

fun js_to_string :: "qparam \<Rightarrow> string" where
  "js_to_string QAbsent = ''undefined''"
| "js_to_string (QStr s) = s"
| "js_to_string (QArr xs) = join_comma xs"

text \<open>Truthiness of a query value: \<open>undefined\<close> and the empty string are falsy, an array is truthy.\<close>

fun truthy_q :: "qparam \<Rightarrow> bool" where
  "truthy_q QAbsent = False"
| "truthy_q (QStr s) = (s \<noteq> [])"
| "truthy_q (QArr _) = True"

definition is_ws :: "char \<Rightarrow> bool" where
  "is_ws c = (c \<in> {CHR 0x09, CHR 0x0A, CHR 0x0B, CHR 0x0C, CHR 0x0D, CHR 0x20})"

definition digit_of :: "char \<Rightarrow> nat option" where
  "digit_of c =
     (let n = (of_char c :: nat) in
      if 48 \<le> n \<and> n \<le> 57 then Some (n - 48)
      else if 97 \<le> n \<and> n \<le> 102 then Some (n - 87)
      else if 65 \<le> n \<and> n \<le> 70 then Some (n - 55)
      else None)"

definition is_radix_digit :: "nat \<Rightarrow> char \<Rightarrow> bool" where
  "is_radix_digit r c = (case digit_of c of None \<Rightarrow> False | Some d \<Rightarrow> d < r)"

definition radix_val :: "nat \<Rightarrow> string \<Rightarrow> nat" where
  "radix_val r ds = foldl (\<lambda>a c. r * a + (case digit_of c of None \<Rightarrow> 0 | Some d \<Rightarrow> d)) 0 ds"

definition is_digit :: "char \<Rightarrow> bool" where
  "is_digit c = is_radix_digit 10 c"

fun strip_sign :: "string \<Rightarrow> bool \<times> string" where
  "strip_sign [] = (False, [])"
| "strip_sign (c # cs) =
     (if c = CHR ''-'' then (True, cs) else if c = CHR ''+'' then (False, cs) else (False, c # cs))"

text \<open>
  \<open>ExponentPart\<close>: \<open>e\<close> or \<open>E\<close>, an optional sign and at least one digit; when the
  input does not start with one, nothing is consumed and the exponent is 0.
\<close>

definition exponent_part :: "string \<Rightarrow> (bool \<times> nat) \<times> string" where
  "exponent_part s =
     (case s of
        [] \<Rightarrow> ((False, 0), s)
      | c # r \<Rightarrow>
          if c = CHR ''e'' \<or> c = CHR ''E'' then
            (let (neg, r') = strip_sign r; ds = takeWhile is_digit r'
             in if ds = [] then ((False, 0), s) else ((neg, radix_val 10 ds), dropWhile is_digit r'))
          else ((False, 0), s))"

text \<open>
  \<open>StrUnsignedDecimalLiteral\<close> without \<open>Infinity\<close>: the longest prefix of the forms
  \<open>digits\<close>, \<open>digits.\<close>, \<open>digits.digits\<close>, \<open>.digits\<close>, each with an optional exponent;
  the value and the rest of the input, or None when no prefix has that form.
\<close>

definition unsigned_decimal :: "string \<Rightarrow> (real \<times> string) option" where
  "unsigned_decimal u =
     (let ip = takeWhile is_digit u; r1 = dropWhile is_digit u;
          (fp, r2) = (case r1 of
                        [] \<Rightarrow> ([], r1)
                      | c # r \<Rightarrow> if c = CHR ''.'' then (takeWhile is_digit r, dropWhile is_digit r)
                                 else ([], r1))
      in if ip = [] \<and> fp = [] then None
         else (let ((eneg, e), r3) = exponent_part r2;
                   m = real (radix_val 10 ip) + real (radix_val 10 fp) / 10 ^ length fp
               in Some (if eneg then m / 10 ^ e else m * 10 ^ e, r3)))"

text \<open>\<open>StrDecimalLiteral\<close>: an optional sign, then \<open>Infinity\<close> or an unsigned decimal.\<close>

definition str_decimal_literal :: "string \<Rightarrow> (jsnum \<times> string) option" where
  "str_decimal_literal t =
     (let (neg, u) = strip_sign t
      in if take 8 u = ''Infinity'' then Some (if neg then NegInf else PosInf, drop 8 u)
         else (case unsigned_decimal u of
                 None \<Rightarrow> None
               | Some (v, r) \<Rightarrow> Some (Fin (if neg then - v else v), r)))"

text \<open>\<open>parseFloat(string)\<close>: leading white space is skipped, the longest numeric prefix is read.\<close>

definition parseFloat :: "string \<Rightarrow> jsnum" where
  "parseFloat s = (case str_decimal_literal (dropWhile is_ws s) of None \<Rightarrow> NaN | Some (v, _) \<Rightarrow> v)"

text \<open>
  \<open>parseInt(string)\<close> with no radix: white space, sign, an optional \<open>0x\<close> prefix, then the
  longest run of digits of the radix; NaN (here None) when that run is empty.
\<close>

definition parseInt :: "string \<Rightarrow> int option" where
  "parseInt s =
     (let (neg, u) = strip_sign (dropWhile is_ws s);
          (radix, v) = (if take 2 u = ''0x'' \<or> take 2 u = ''0X'' then (16, drop 2 u) else (10, u));
          z = takeWhile (is_radix_digit radix) v
      in if z = [] then None
         else Some ((if neg then - 1 else 1) * int (radix_val radix z)))"

text \<open>\<open>parseInt(x) || d\<close>: NaN and 0 give the default.\<close>

definition parseInt_or :: "string \<Rightarrow> int \<Rightarrow> int" where
  "parseInt_or s d = (case parseInt s of None \<Rightarrow> d | Some n \<Rightarrow> if n = 0 then d else n)"

definition trim :: "string \<Rightarrow> string" where
  "trim s = rev (dropWhile is_ws (rev (dropWhile is_ws s)))"

text \<open>The literals \<open>0x..\<close>, \<open>0o..\<close>, \<open>0b..\<close> (either case of the letter), which take no sign.\<close>

definition radix_literal :: "string \<Rightarrow> nat option" where
  "radix_literal t =
     (let p = take 2 t; ds = drop 2 t;
          r = (if p = ''0x'' \<or> p = ''0X'' then 16
               else if p = ''0o'' \<or> p = ''0O'' then 8
               else if p = ''0b'' \<or> p = ''0B'' then 2 else (0::nat))
      in if r \<noteq> 0 \<and> ds \<noteq> [] \<and> list_all (is_radix_digit r) ds then Some (radix_val r ds) else None)"

text \<open>
  \<open>Number(string)\<close>: the whole trimmed string must be a numeric literal; the empty string
  is 0, anything else is NaN.
\<close>

definition Number_str :: "string \<Rightarrow> jsnum" where
  "Number_str s =
     (let t = trim s
      in if t = [] then Fin 0
         else (case radix_literal t of
                 Some n \<Rightarrow> Fin (real n)
               | None \<Rightarrow> (case str_decimal_literal t of
                            Some (v, []) \<Rightarrow> v
                          | _ \<Rightarrow> NaN)))"

section \<open>Coordinate utility (utils/geoUtils)\<close>

definition isValidCoordinates :: "jsnum \<Rightarrow> jsnum \<Rightarrow> bool" where
  "isValidCoordinates lat lon =
     (js_ge lat (Fin (- 90)) \<and> js_le lat (Fin 90) \<and> js_ge lon (Fin (- 180)) \<and> js_le lon (Fin 180))"

section \<open>Search orchestration\<close>

record geo =
  geo_lat :: real
  geo_lon :: real

text \<open>\<open>req.query\<close> (the controller) or \<open>searchParams\<close> (the service).\<close>

record search_query =
  q_latitude :: qparam
  q_longitude :: qparam
  q_radius :: qparam
  q_page :: qparam
  q_limit :: qparam
  q_categories :: qparam
  q_startDate :: qparam
  q_endDate :: qparam

text \<open>The variables of \<open>process.env\<close> the search reads: each is unset or a string.\<close>

record search_env =
  DEFAULT_LATITUDE :: qparam
  DEFAULT_LONGITUDE :: qparam
  DEFAULT_SEARCH_RADIUS :: qparam

text \<open>\<open>req.user\<close> as far as the search reads it: the stored location, when there is one.\<close>

record auth_user =
  au_location :: "geo option"

text \<open>The argument object handed to \<open>Event.searchByLocation\<close>.\<close>

record search_args =
  sa_latitude :: jsnum
  sa_longitude :: jsnum
  sa_radius :: jsnum
  sa_categoryIds :: "jsnum list"
  sa_startDate :: qparam
  sa_endDate :: qparam
  sa_page :: int
  sa_limit :: int

text \<open>
  \<open>categories ? (Array.isArray(categories) ? categories.map(Number) : [Number(categories)]) : []\<close>
\<close>

definition categoryIds_of :: "qparam \<Rightarrow> jsnum list" where
  "categoryIds_of c =
     (if truthy_q c
      then (case c of QArr xs \<Rightarrow> map Number_str xs | _ \<Rightarrow> [Number_str (js_to_string c)])
      else [])"

text \<open>\<open>parseFloat(process.env.DEFAULT_LATITUDE) || 37.7749\<close> and its longitude twin.\<close>

definition default_latitude :: "search_env \<Rightarrow> jsnum" where
  "default_latitude env = js_or (parseFloat (js_to_string (DEFAULT_LATITUDE env))) (Fin 37.7749)"

definition default_longitude :: "search_env \<Rightarrow> jsnum" where
  "default_longitude env = js_or (parseFloat (js_to_string (DEFAULT_LONGITUDE env))) (Fin (- 122.4194))"

text \<open>
  The branch taken when the request's coordinates are not used: \<open>user && user.location\<close>
  selects the stored location, otherwise the defaults.
\<close>

definition fallback_center :: "auth_user option \<Rightarrow> search_env \<Rightarrow> jsnum \<times> jsnum" where
  "fallback_center user env =
     (case user of
        Some u \<Rightarrow> (case au_location u of
                     Some l \<Rightarrow> (Fin (geo_lat l), Fin (geo_lon l))
                   | None \<Rightarrow> (default_latitude env, default_longitude env))
      | None \<Rightarrow> (default_latitude env, default_longitude env))"

text \<open>
  \<open>SearchService.searchByLocation\<close> (services/searchService.js) up to its call of
  \<open>Event.searchByLocation\<close>: the value is the argument object of that call, which the
  service also returns as \<open>searchParameters\<close>.
\<close>

definition SearchService_searchByLocation ::
  "search_query \<Rightarrow> auth_user option \<Rightarrow> search_env \<Rightarrow> search_args" where
  "SearchService_searchByLocation searchParams user env =
     (let latitude = parseFloat (js_to_string (q_latitude searchParams));
          longitude = parseFloat (js_to_string (q_longitude searchParams));
          radius = js_or (js_or (parseFloat (js_to_string (q_radius searchParams)))
                                (parseFloat (js_to_string (DEFAULT_SEARCH_RADIUS env))))
                         (Fin 10);
          page = parseInt_or (js_to_string (q_page searchParams)) 1;
          limit = parseInt_or (js_to_string (q_limit searchParams)) 10;
          categoryIds = categoryIds_of (q_categories searchParams);
          (latitude, longitude) =
             (if \<not> isValidCoordinates latitude longitude then fallback_center user env
              else (latitude, longitude))
      in \<lparr>sa_latitude = latitude, sa_longitude = longitude, sa_radius = radius,
          sa_categoryIds = categoryIds, sa_startDate = q_startDate searchParams,
          sa_endDate = q_endDate searchParams, sa_page = page, sa_limit = limit\<rparr>)"

text \<open>
  The \<open>categories\<close> rule of the location-search validation (utils/validators and the
  route): the custom validator, and the chain \<open>.optional().custom(..).withMessage(..)\<close>,
  which skips an absent field and reports one message when the validator returns false.
\<close>

definition categories_valid :: "qparam \<Rightarrow> bool" where
  "categories_valid v =
     (case v of
        QArr xs \<Rightarrow> list_all (\<lambda>item. parseInt item \<noteq> None) xs
      | _ \<Rightarrow> parseInt (js_to_string v) \<noteq> None)"

definition categories_rule :: "qparam \<Rightarrow> string list" where
  "categories_rule v =
     (if v = QAbsent then []
      else if categories_valid v then []
      else [''Categories must be valid integers''])"

text \<open>
  \<open>searchController.searchByLocation\<close> up to its call of \<open>Event.searchByLocation\<close>.
  \<open>errors\<close> is what \<open>validationResult(req)\<close> holds after the route's validation chains
  have run; a request with errors is answered 400 and nothing is searched.
\<close>

datatype controller_result = Status400 "string list" | Search search_args

definition searchController_searchByLocation ::
  "string list \<Rightarrow> search_query \<Rightarrow> auth_user option \<Rightarrow> search_env \<Rightarrow> controller_result" where
  "searchController_searchByLocation errors query user env =
     (if errors \<noteq> [] then Status400 errors
      else
        (let latitude = parseFloat (js_to_string (q_latitude query));
             longitude = parseFloat (js_to_string (q_longitude query));
             radius = js_or (js_or (parseFloat (js_to_string (q_radius query)))
                                   (parseFloat (js_to_string (DEFAULT_SEARCH_RADIUS env))))
                            (Fin 10);
             page = parseInt_or (js_to_string (q_page query)) 1;
             limit = parseInt_or (js_to_string (q_limit query)) 10;
             categoryIds = categoryIds_of (q_categories query);
             (latitude, longitude) =
                (if isNaN latitude \<or> isNaN longitude then fallback_center user env
                 else (latitude, longitude))
         in Search \<lparr>sa_latitude = latitude, sa_longitude = longitude, sa_radius = radius,
                    sa_categoryIds = categoryIds, sa_startDate = q_startDate query,
                    sa_endDate = q_endDate query, sa_page = page, sa_limit = limit\<rparr>))"

text \<open>
  The resolution order in the words of the specification: the explicit pair when it is
  accepted, otherwise the caller's stored location when there is one, otherwise the
  default pair.
\<close>

definition spec_center :: "bool \<Rightarrow> jsnum \<times> jsnum \<Rightarrow> geo option \<Rightarrow> jsnum \<times> jsnum \<Rightarrow> jsnum \<times> jsnum" where
  "spec_center accepted explicit stored dflt =
     (if accepted then explicit
      else (case stored of Some l \<Rightarrow> (Fin (geo_lat l), Fin (geo_lon l)) | None \<Rightarrow> dflt))"

definition stored_location :: "auth_user option \<Rightarrow> geo option" where
  "stored_location user = (case user of None \<Rightarrow> None | Some u \<Rightarrow> au_location u)"

definition center_of :: "search_args \<Rightarrow> jsnum \<times> jsnum" where
  "center_of a = (sa_latitude a, sa_longitude a)"

definition controller_center :: "controller_result \<Rightarrow> (jsnum \<times> jsnum) option" where
  "controller_center r = (case r of Status400 _ \<Rightarrow> None | Search a \<Rightarrow> Some (center_of a))"

subsection \<open>Sample requests\<close>

definition no_env :: search_env where
  "no_env = \<lparr>DEFAULT_LATITUDE = QAbsent, DEFAULT_LONGITUDE = QAbsent, DEFAULT_SEARCH_RADIUS = QAbsent\<rparr>"

definition sacramento_user :: auth_user where
  "sacramento_user = \<lparr>au_location = Some \<lparr>geo_lat = 38.5, geo_lon = - 121.5\<rparr>\<rparr>"

definition empty_query :: search_query where
  "empty_query = \<lparr>q_latitude = QAbsent, q_longitude = QAbsent, q_radius = QAbsent,
     q_page = QAbsent, q_limit = QAbsent, q_categories = QAbsent, q_startDate = QAbsent,
     q_endDate = QAbsent\<rparr>"

definition out_of_range_query :: search_query where
  "out_of_range_query = empty_query\<lparr>q_latitude := QStr ''100'', q_longitude := QStr ''0''\<rparr>"

definition mixed_categories_query :: search_query where
  "mixed_categories_query = empty_query\<lparr>q_categories := QArr [''1'', ''abc'']\<rparr>"

section \<open>The relational store\<close>

text \<open>
  The PostgreSQL tables the models read and write, each as the list of its rows. Instants
  (\<open>TIMESTAMP WITH TIME ZONE\<close>) are integers, a nullable column is an \<open>option\<close>, and a
  \<open>GEOGRAPHY(Point)\<close> is the latitude/longitude pair it was made from. The columns of
  \<open>users\<close> and \<open>events\<close> are those of the schema printed in the README.
\<close>

record user_row =
  usr_id :: int
  usr_username :: string
  usr_email :: string
  usr_password :: string
  usr_full_name :: "string option"
  usr_location :: "geo option"
  usr_preferred_language :: "string option"
  usr_created_at :: int
  usr_updated_at :: int

record event_row =
  evt_id :: int
  evt_title :: string
  evt_description :: "string option"
  evt_location :: geo
  evt_address :: "string option"
  evt_start_time :: int
  evt_end_time :: "int option"
  evt_creator_id :: "int option"
  evt_created_at :: int
  evt_updated_at :: int

record category_row =
  cat_id :: int
  cat_name :: string

record review_row =
  rev_id :: int
  rev_event_id :: int
  rev_user_id :: int
  rev_rating :: int
  rev_review :: "string option"
  rev_created_at :: int
  rev_updated_at :: int

record favorite_row =
  fav_user_id :: int
  fav_event_id :: int
  fav_created_at :: int

text \<open>\<open>event_categories\<close> holds the pairs (event id, category id).\<close>

record db =
  users :: "user_row list"
  events :: "event_row list"
  categories :: "category_row list"
  event_categories :: "(int \<times> int) list"
  event_reviews :: "review_row list"
  user_favorite_events :: "favorite_row list"

text \<open>
  The errors a statement can raise, by their SQLSTATE class: 23505, 23503, 23502, 42703
  (a name that is no column), 2201W/2201X (a negative LIMIT or OFFSET), 22P02 (a
  parameter whose text is no literal of its type) and 22003 (a number outside the range
  of its type).
\<close>

datatype db_error =
  UniqueViolation | ForeignKeyViolation | NotNullViolation | UndefinedColumn | InvalidRowCount
  | InvalidTextRepresentation | NumericValueOutOfRange

text \<open>
  What the database supplies to a statement: \<open>CURRENT_TIMESTAMP\<close> and the value the
  \<open>SERIAL\<close> sequence of the target table hands out for a new row.
\<close>

record db_env =
  now :: int
  new_id :: int

text \<open>
  A field of a JSON request body or of a model's argument object: missing
  (\<open>undefined\<close>), \<open>null\<close>, or a value. Coordinates are JSON numbers, texts are strings,
  instants are ISO-8601 strings (represented by the instant they denote), and category
  lists are arrays of integers.
\<close>

datatype 'a field = Undefined | Null | Val 'a

fun truthy_str :: "string field \<Rightarrow> bool" where
  "truthy_str (Val s) = (s \<noteq> [])"
| "truthy_str _ = False"

fun truthy_real :: "real field \<Rightarrow> bool" where
  "truthy_real (Val r) = (r \<noteq> 0)"
| "truthy_real _ = False"

text \<open>A date string is not empty and an array is an object: both are truthy.\<close>

fun truthy_val :: "'a field \<Rightarrow> bool" where
  "truthy_val (Val _) = True"
| "truthy_val _ = False"

text \<open>The value node-postgres sends for a parameter: \<open>undefined\<close> and \<open>null\<close> become NULL.\<close>

fun to_sql :: "'a field \<Rightarrow> 'a option" where
  "to_sql (Val v) = Some v"
| "to_sql _ = None"

subsection \<open>Reading events\<close>

record event_view =
  view_event :: event_row
  view_categories :: "category_row list"

record located_event = event_view +
  distance_km :: real

record pagination =
  pg_total :: int
  pg_page :: int
  pg_limit :: int
  pg_pages :: jsnum

record search_result =
  found :: "located_event list"
  found_pagination :: pagination

record list_result =
  listed :: "event_view list"
  listed_pagination :: pagination

text \<open>
  \<open>SELECT c.id, c.name FROM categories c JOIN event_categories ec ON c.id = ec.category_id
  WHERE ec.event_id = $1 ORDER BY c.name\<close>
\<close>

definition categories_of_event :: "db \<Rightarrow> int \<Rightarrow> category_row list" where
  "categories_of_event d eid =
     sort_key cat_name
       [c. c \<leftarrow> categories d, ec \<leftarrow> event_categories d, cat_id c = snd ec, fst ec = eid]"

text \<open>\<open>Event.getById\<close>: the first row with the id, with its categories; \<open>null\<close> is None.\<close>

definition Event_getById :: "int \<Rightarrow> db \<Rightarrow> event_view option" where
  "Event_getById eid d =
     (case filter (\<lambda>e. evt_id e = eid) (events d) of
        [] \<Rightarrow> None
      | e # _ \<Rightarrow> Some \<lparr>view_event = e, view_categories = categories_of_event d eid\<rparr>)"

text \<open>\<open>Math.ceil(total / limit)\<close> on integer-valued numbers; a division by 0 is infinite or NaN.\<close>

definition js_div :: "int \<Rightarrow> int \<Rightarrow> jsnum" where
  "js_div a b =
     (if b = 0 then (if a = 0 then NaN else if 0 < a then PosInf else NegInf)
      else Fin (real_of_int a / real_of_int b))"

fun Math_ceil :: "jsnum \<Rightarrow> jsnum" where
  "Math_ceil (Fin x) = Fin (of_int \<lceil>x\<rceil>)"
| "Math_ceil n = n"

text \<open>\<open>Number.prototype.toFixed(2)\<close>, as the number it prints: the nearest multiple of 0.01, the larger one on a tie.\<close>

definition toFixed2 :: "real \<Rightarrow> real" where
  "toFixed2 x = of_int \<lfloor>x * 100 + 1 / 2\<rfloor> / 100"

text \<open>
  The text \<open>c.id IN (${categoryIds.join(', ')})\<close>: a NaN or an infinity is printed as a
  name, which is no column of the query, so the statement fails; finite numbers are
  numeric literals.
\<close>

definition in_list_ok :: "jsnum list \<Rightarrow> bool" where
  "in_list_ok ids = list_all (\<lambda>n. case n of Fin _ \<Rightarrow> True | _ \<Rightarrow> False) ids"

text \<open>
  The rows of \<open>events e JOIN event_categories ec ON e.id = ec.event_id JOIN categories c
  ON ec.category_id = c.id\<close> that pass \<open>c.id IN (...)\<close>, as the events they carry
  (one occurrence per joined row).
\<close>

definition joined_events :: "db \<Rightarrow> jsnum list \<Rightarrow> event_row list" where
  "joined_events d ids =
     [e. e \<leftarrow> events d, ec \<leftarrow> event_categories d, evt_id e = fst ec,
         c \<leftarrow> categories d, snd ec = cat_id c, Fin (real_of_int (cat_id c)) \<in> set ids]"

text \<open>The FROM clause with or without the category join (\<open>categoryIds && categoryIds.length > 0\<close>).\<close>

definition from_events :: "db \<Rightarrow> jsnum list \<Rightarrow> event_row list" where
  "from_events d ids = (if ids \<noteq> [] then joined_events d ids else events d)"

text \<open>
  The date conditions on \<open>e.start_time\<close>. A bound is None for a falsy argument
  (\<open>null\<close>, \<open>undefined\<close>, the empty string) and Some of the instant a date string denotes.
\<close>

definition date_conditions :: "int option \<Rightarrow> int option \<Rightarrow> event_row \<Rightarrow> bool" where
  "date_conditions startDate endDate e =
     ((case startDate of None \<Rightarrow> True | Some s \<Rightarrow> s \<le> evt_start_time e)
      \<and> (case endDate of None \<Rightarrow> True | Some t \<Rightarrow> evt_start_time e \<le> t))"

text \<open>
  A whole number bound to a parameter of type \<open>bigint\<close>. node-postgres sends a number as
  the text JavaScript prints for it, which from \<open>10^21\<close> on is in exponent notation and no
  integer literal; an integer literal outside 64 bits is out of range.
\<close>

definition param_bigint :: "int \<Rightarrow> db_error + int" where
  "param_bigint x =
     (if 10 ^ 21 \<le> \<bar>x\<bar> then Inl InvalidTextRepresentation
      else if x < - (2 ^ 63) \<or> 2 ^ 63 - 1 < x then Inl NumericValueOutOfRange
      else Inr x)"

text \<open>
  \<open>LIMIT $n OFFSET $m\<close>: both parameters are of type \<open>bigint\<close>, and a negative count
  is an error.
\<close>

definition limit_offset :: "int \<Rightarrow> int \<Rightarrow> 'a list \<Rightarrow> db_error + 'a list" where
  "limit_offset n m rows =
     (case param_bigint n of
        Inl err \<Rightarrow> Inl err
      | Inr _ \<Rightarrow>
          (case param_bigint m of
             Inl err \<Rightarrow> Inl err
           | Inr _ \<Rightarrow>
               if n < 0 \<or> m < 0 then Inl InvalidRowCount
               else Inr (take (nat n) (drop (nat m) rows))))"

subsection \<open>Event.getAll\<close>

text \<open>
  The argument object of \<open>Event.getAll\<close>, every field given as for the location search.
  \<open>creatorId\<close> is None for a falsy value and Some of the id otherwise.
\<close>

record list_options =
  lo_page :: int
  lo_limit :: int
  lo_categoryIds :: "jsnum list"
  lo_creatorId :: "int option"
  lo_startDate :: "int option"
  lo_endDate :: "int option"

definition list_conditions :: "list_options \<Rightarrow> event_row \<Rightarrow> bool" where
  "list_conditions opts e =
     ((case lo_creatorId opts of None \<Rightarrow> True | Some c \<Rightarrow> evt_creator_id e = Some c)
      \<and> date_conditions (lo_startDate opts) (lo_endDate opts) e)"

definition Event_getAll :: "list_options \<Rightarrow> db \<Rightarrow> db_error + list_result" where
  "Event_getAll opts d =
     (let offset = (lo_page opts - 1) * lo_limit opts;
          categoryIds = lo_categoryIds opts
      in if \<not> in_list_ok categoryIds then Inl UndefinedColumn
         else
           (let rows = filter (list_conditions opts) (from_events d categoryIds);
                total = int (length (remdups (map evt_id rows)));
                ordered = sort_key evt_start_time (remdups rows)
            in case limit_offset (lo_limit opts) offset ordered of
                 Inl err \<Rightarrow> Inl err
               | Inr page_rows \<Rightarrow>
                   Inr \<lparr>listed = map (\<lambda>e. \<lparr>view_event = e,
                                             view_categories = categories_of_event d (evt_id e)\<rparr>) page_rows,
                        listed_pagination = \<lparr>pg_total = total, pg_page = lo_page opts, pg_limit = lo_limit opts,
                                             pg_pages = Math_ceil (js_div total (lo_limit opts))\<rparr>\<rparr>))"

subsection \<open>Event.searchByLocation\<close>

text \<open>
  The argument object of \<open>Event.searchByLocation\<close>, with finite numbers for the centre
  and the radius (in kilometres; the route accepts any number from 0.1). Every field is given: the defaults of the signature
  (radius 10, page 1, limit 10, no categories, no dates) are the values a caller that
  leaves a field out passes here.
\<close>

record location_options =
  so_latitude :: real
  so_longitude :: real
  so_radius :: real
  so_categoryIds :: "jsnum list"
  so_startDate :: "int option"
  so_endDate :: "int option"
  so_page :: int
  so_limit :: int

definition center :: "location_options \<Rightarrow> geo" where
  "center opts = \<lparr>geo_lat = so_latitude opts, geo_lon = so_longitude opts\<rparr>"

text \<open>
  PostGIS is not part of the repository: its distance between two geography points, in
  metres, is the parameter \<open>st_distance\<close> of the search. \<open>ST_DWithin(a, b, r)\<close> holds
  when that distance is at most \<open>r\<close>.
\<close>

definition ST_DWithin :: "(geo \<Rightarrow> geo \<Rightarrow> real) \<Rightarrow> geo \<Rightarrow> geo \<Rightarrow> real \<Rightarrow> bool" where
  "ST_DWithin st_distance a b r = (st_distance a b \<le> r)"

text \<open>
  The parameter \<open>$1\<close> of \<open>$1 * 1000\<close>. PostgreSQL gives it the type of the other operand,
  \<open>integer\<close>, and node-postgres sends the radius as the text JavaScript prints for it: a
  radius that is no whole number (2.5, say), or one printed in exponent notation, is
  refused; a whole number that does not fit 32 bits, or whose product with 1000 does
  not, is out of range. Otherwise the bound in metres is the product.
\<close>

definition radius_metres :: "real \<Rightarrow> db_error + int" where
  "radius_metres radius =
     (let k = \<lfloor>radius\<rfloor>
      in if real_of_int k \<noteq> radius \<or> 10 ^ 21 \<le> \<bar>k\<bar> then Inl InvalidTextRepresentation
         else if k < - (2 ^ 31) \<or> 2 ^ 31 - 1 < k then Inl NumericValueOutOfRange
         else if k * 1000 < - (2 ^ 31) \<or> 2 ^ 31 - 1 < k * 1000 then Inl NumericValueOutOfRange
         else Inr (k * 1000))"

text \<open>
  The WHERE conditions on the event. When \<open>radius_metres\<close> gives a bound, that bound is
  the radius times 1000, as written here.
\<close>

definition location_conditions :: "(geo \<Rightarrow> geo \<Rightarrow> real) \<Rightarrow> location_options \<Rightarrow> event_row \<Rightarrow> bool" where
  "location_conditions st_distance opts e =
     (ST_DWithin st_distance (evt_location e) (center opts) (so_radius opts * 1000)
      \<and> date_conditions (so_startDate opts) (so_endDate opts) e)"

text \<open>The column \<open>ST_Distance(e.location, centre) / 1000 as distance_km\<close>.\<close>

definition distance_km_of :: "(geo \<Rightarrow> geo \<Rightarrow> real) \<Rightarrow> location_options \<Rightarrow> event_row \<Rightarrow> real" where
  "distance_km_of st_distance opts e = st_distance (evt_location e) (center opts) / 1000"

definition Event_searchByLocation ::
  "(geo \<Rightarrow> geo \<Rightarrow> real) \<Rightarrow> location_options \<Rightarrow> db \<Rightarrow> db_error + search_result" where
  "Event_searchByLocation st_distance opts d =
     (let offset = (so_page opts - 1) * so_limit opts;
          categoryIds = so_categoryIds opts
      in if \<not> in_list_ok categoryIds then Inl UndefinedColumn
         else
           (case radius_metres (so_radius opts) of
              Inl err \<Rightarrow> Inl err
            | Inr _ \<Rightarrow>
                (let rows = filter (location_conditions st_distance opts) (from_events d categoryIds);
                     total = int (length (remdups (map evt_id rows)));
                     selected = remdups (map (\<lambda>e. (e, distance_km_of st_distance opts e)) rows);
                     ordered = sort_key (\<lambda>(e, dkm). (dkm, evt_start_time e)) selected
                 in case limit_offset (so_limit opts) offset ordered of
                      Inl err \<Rightarrow> Inl err
                    | Inr page_rows \<Rightarrow>
                        Inr \<lparr>found = map (\<lambda>(e, dkm). \<lparr>view_event = e,
                                                 view_categories = categories_of_event d (evt_id e),
                                                 distance_km = toFixed2 dkm\<rparr>) page_rows,
                             found_pagination = \<lparr>pg_total = total, pg_page = so_page opts,
                                                 pg_limit = so_limit opts,
                                                 pg_pages = Math_ceil (js_div total (so_limit opts))\<rparr>\<rparr>)))"

text \<open>The haversine distance of server.js, in kilometres, with \<open>Math.atan2\<close> on the reals.\<close>

definition Math_atan2 :: "real \<Rightarrow> real \<Rightarrow> real" where
  "Math_atan2 y x =
     (if 0 < x then arctan (y / x)
      else if x < 0 \<and> 0 \<le> y then arctan (y / x) + pi
      else if x < 0 then arctan (y / x) - pi
      else if 0 < y then pi / 2
      else if y < 0 then - pi / 2
      else 0)"

definition calculateDistance :: "real \<Rightarrow> real \<Rightarrow> real \<Rightarrow> real \<Rightarrow> real" where
  "calculateDistance lat1 lon1 lat2 lon2 =
     (let R = 6371;
          dLat = (lat2 - lat1) * pi / 180;
          dLon = (lon2 - lon1) * pi / 180;
          a = sin (dLat / 2) * sin (dLat / 2)
              + cos (lat1 * pi / 180) * cos (lat2 * pi / 180) * sin (dLon / 2) * sin (dLon / 2);
          c = 2 * Math_atan2 (sqrt a) (sqrt (1 - a))
      in R * c)"

text \<open>The same distance between two stored points, in metres.\<close>

definition haversine_m :: "geo \<Rightarrow> geo \<Rightarrow> real" where
  "haversine_m a b = 1000 * calculateDistance (geo_lat a) (geo_lon a) (geo_lat b) (geo_lon b)"

subsection \<open>The filters in the words of the specification\<close>

text \<open>
  An event has one of the requested categories when a row of \<open>event_categories\<close> links
  it to a category of the list; it matches a search when it passes every supplied
  filter, the category filter being absent for an empty list.
\<close>

definition has_any_category :: "db \<Rightarrow> jsnum list \<Rightarrow> event_row \<Rightarrow> bool" where
  "has_any_category d ids e =
     (\<exists>ec \<in> set (event_categories d). fst ec = evt_id e \<and>
        (\<exists>c \<in> set (categories d). cat_id c = snd ec \<and> Fin (real_of_int (cat_id c)) \<in> set ids))"

definition location_match :: "(geo \<Rightarrow> geo \<Rightarrow> real) \<Rightarrow> location_options \<Rightarrow> db \<Rightarrow> event_row \<Rightarrow> bool" where
  "location_match st_distance opts d e =
     (st_distance (evt_location e) (center opts) / 1000 \<le> so_radius opts
      \<and> date_conditions (so_startDate opts) (so_endDate opts) e
      \<and> (so_categoryIds opts = [] \<or> has_any_category d (so_categoryIds opts) e))"

definition list_match :: "list_options \<Rightarrow> db \<Rightarrow> event_row \<Rightarrow> bool" where
  "list_match opts d e =
     (list_conditions opts e
      \<and> (lo_categoryIds opts = [] \<or> has_any_category d (lo_categoryIds opts) e))"

text \<open>The number of events of the store, counted by id, that satisfy a predicate.\<close>

definition count_events :: "db \<Rightarrow> (event_row \<Rightarrow> bool) \<Rightarrow> int" where
  "count_events d P = int (card (evt_id ` {e \<in> set (events d). P e}))"

text \<open>The order of the result: nearer first, and the earlier start first at equal distance.\<close>

definition nearer_or_earlier :: "(geo \<Rightarrow> geo \<Rightarrow> real) \<Rightarrow> location_options \<Rightarrow> located_event \<Rightarrow> located_event \<Rightarrow> bool" where
  "nearer_or_earlier st_distance opts a b =
     (st_distance (evt_location (view_event a)) (center opts)
        < st_distance (evt_location (view_event b)) (center opts)
      \<or> (st_distance (evt_location (view_event a)) (center opts)
            = st_distance (evt_location (view_event b)) (center opts)
          \<and> evt_start_time (view_event a) \<le> evt_start_time (view_event b)))"

text \<open>The category ids associated with an event, in the order of the table.\<close>

definition category_ids_of_event :: "db \<Rightarrow> int \<Rightarrow> int list" where
  "category_ids_of_event d eid = map snd (filter (\<lambda>ec. fst ec = eid) (event_categories d))"

section \<open>Writing to the store\<close>

text \<open>
  A mutating model function returns its result, or the error the database raised, and
  the store afterwards. A statement that fails changes nothing, and a transaction that
  is rolled back restores the store it started from. The length limits of the VARCHAR
  columns are not modelled.
\<close>

text \<open>\<open>result.rows[0]\<close>: the first row, \<open>undefined\<close> (None) when there is none.\<close>

fun first_row :: "'a list \<Rightarrow> 'a option" where
  "first_row [] = None"
| "first_row (x # _) = Some x"

text \<open>The value a truthy field carries; the second argument stands in for the other cases.\<close>

fun val_or :: "'a field \<Rightarrow> 'a \<Rightarrow> 'a" where
  "val_or (Val v) _ = v"
| "val_or _ x = x"

text \<open>
  \<open>ST_SetSRID(ST_MakePoint(longitude, latitude), 4326)::geography\<close> of the two
  parameters: NULL when either is NULL.
\<close>

fun ST_MakePoint :: "real field \<Rightarrow> real field \<Rightarrow> geo option" where
  "ST_MakePoint (Val lo) (Val la) = Some \<lparr>geo_lat = la, geo_lon = lo\<rparr>"
| "ST_MakePoint _ _ = None"

subsection \<open>Users\<close>

text \<open>
  The argument object of \<open>User.create\<close> and \<open>User.update\<close>, without the password, which
  reaches the store hashed: the hash \<open>bcrypt.hash\<close> returned is an argument of its own.
\<close>

record user_data =
  ud_username :: "string field"
  ud_email :: "string field"
  ud_fullName :: "string field"
  ud_latitude :: "real field"
  ud_longitude :: "real field"
  ud_preferredLanguage :: "string field"

definition User_findById :: "int \<Rightarrow> db \<Rightarrow> user_row option" where
  "User_findById uid d = first_row (filter (\<lambda>u. usr_id u = uid) (users d))"

text \<open>
  \<open>User.create\<close>. The table has \<open>username\<close>, \<open>email\<close> NOT NULL and UNIQUE, and \<open>id\<close> as
  its primary key.
\<close>

definition User_create :: "db_env \<Rightarrow> string \<Rightarrow> user_data \<Rightarrow> db \<Rightarrow> (db_error + user_row) \<times> db" where
  "User_create env hashedPassword userData d =
     (let latitude = ud_latitude userData;
          longitude = ud_longitude userData;
          preferredLanguage = (case ud_preferredLanguage userData of
                                 Undefined \<Rightarrow> Val ''en'' | v \<Rightarrow> v);
          location = (if truthy_real latitude \<and> truthy_real longitude
                      then ST_MakePoint longitude latitude else None)
      in case (to_sql (ud_username userData), to_sql (ud_email userData)) of
           (Some username, Some email) \<Rightarrow>
             if new_id env \<in> usr_id ` set (users d)
                \<or> username \<in> usr_username ` set (users d)
                \<or> email \<in> usr_email ` set (users d)
             then (Inl UniqueViolation, d)
             else
               (let user = \<lparr>usr_id = new_id env, usr_username = username, usr_email = email,
                             usr_password = hashedPassword,
                             usr_full_name = to_sql (ud_fullName userData),
                             usr_location = location,
                             usr_preferred_language = to_sql preferredLanguage,
                             usr_created_at = now env, usr_updated_at = now env\<rparr>
                in (Inr user, d\<lparr>users := users d @ [user]\<rparr>))
         | _ \<Rightarrow> (Inl NotNullViolation, d))"

text \<open>The SET clause of \<open>User.update\<close> applied to one row.\<close>

definition update_user_row :: "int \<Rightarrow> user_data \<Rightarrow> user_row \<Rightarrow> user_row" where
  "update_user_row t userData u =
     u\<lparr>usr_username := (if truthy_str (ud_username userData)
                          then val_or (ud_username userData) (usr_username u) else usr_username u),
        usr_email := (if truthy_str (ud_email userData)
                       then val_or (ud_email userData) (usr_email u) else usr_email u),
        usr_full_name := (if truthy_str (ud_fullName userData)
                           then to_sql (ud_fullName userData) else usr_full_name u),
        usr_preferred_language := (if truthy_str (ud_preferredLanguage userData)
                                    then to_sql (ud_preferredLanguage userData)
                                    else usr_preferred_language u),
        usr_location := (if truthy_real (ud_latitude userData) \<and> truthy_real (ud_longitude userData)
                          then ST_MakePoint (ud_longitude userData) (ud_latitude userData)
                          else usr_location u),
        usr_updated_at := t\<rparr>"

text \<open>\<open>updateFields.length === 1\<close>: only \<open>updated_at\<close> was pushed.\<close>

definition no_user_fields :: "user_data \<Rightarrow> bool" where
  "no_user_fields userData =
     (\<not> truthy_str (ud_username userData) \<and> \<not> truthy_str (ud_email userData)
      \<and> \<not> truthy_str (ud_fullName userData) \<and> \<not> truthy_str (ud_preferredLanguage userData)
      \<and> \<not> (truthy_real (ud_latitude userData) \<and> truthy_real (ud_longitude userData)))"

definition User_update :: "db_env \<Rightarrow> int \<Rightarrow> user_data \<Rightarrow> db \<Rightarrow> (db_error + user_row option) \<times> db" where
  "User_update env uid userData d =
     (if no_user_fields userData then (Inr (User_findById uid d), d)
      else
        (let updated = map (update_user_row (now env) userData) (filter (\<lambda>u. usr_id u = uid) (users d));
             others = filter (\<lambda>u. usr_id u \<noteq> uid) (users d)
         in if (\<exists>u \<in> set updated. \<exists>v \<in> set others.
                  usr_username u = usr_username v \<or> usr_email u = usr_email v)
            then (Inl UniqueViolation, d)
            else (Inr (first_row updated),
                  d\<lparr>users := map (\<lambda>u. if usr_id u = uid then update_user_row (now env) userData u else u)
                                (users d)\<rparr>)))"

subsection \<open>Events\<close>

record event_data =
  ed_title :: "string field"
  ed_description :: "string field"
  ed_latitude :: "real field"
  ed_longitude :: "real field"
  ed_address :: "string field"
  ed_startTime :: "int field"
  ed_endTime :: "int field"
  ed_creatorId :: "int field"
  ed_categories :: "int list field"

text \<open>
  Modelled from the spec: database-schema.sql, which declares \<open>event_categories\<close>,
  \<open>event_reviews\<close> and \<open>user_favorite_events\<close>, is not among the sources. In the
  specification these rows belong to their event: an event id in them refers to a stored
  event.
\<close>

definition event_exists :: "db \<Rightarrow> int \<Rightarrow> bool" where
  "event_exists d eid = (eid \<in> evt_id ` set (events d))"

text \<open>
  Modelled from the spec: the same file is missing for the category side of an
  association; a category id in \<open>event_categories\<close> refers to a stored category.
\<close>

definition category_exists :: "db \<Rightarrow> int \<Rightarrow> bool" where
  "category_exists d cid = (cid \<in> cat_id ` set (categories d))"

text \<open>
  Modelled from the spec: the missing schema decides what the deletion of an event does
  to the dependent tables; in the specification it cascades to the category
  associations, the reviews and the favourite markers of the event.
\<close>

definition cascade_event_delete :: "int \<Rightarrow> db \<Rightarrow> db" where
  "cascade_event_delete eid d =
     d\<lparr>event_categories := filter (\<lambda>ec. fst ec \<noteq> eid) (event_categories d),
       event_reviews := filter (\<lambda>r. rev_event_id r \<noteq> eid) (event_reviews d),
       user_favorite_events := filter (\<lambda>f. fav_event_id f \<noteq> eid) (user_favorite_events d)\<rparr>"

text \<open>
  \<open>INSERT INTO event_categories (event_id, category_id) VALUES ...\<close>: the pairs are
  unique in the table (the specification's association is a unique pair) and refer to
  stored rows.
\<close>

definition insert_event_categories :: "(int \<times> int) list \<Rightarrow> db \<Rightarrow> db_error + db" where
  "insert_event_categories rows d =
     (if \<not> distinct (event_categories d @ rows) then Inl UniqueViolation
      else if (\<exists>ec \<in> set rows. \<not> event_exists d (fst ec) \<or> \<not> category_exists d (snd ec))
      then Inl ForeignKeyViolation
      else Inr (d\<lparr>event_categories := event_categories d @ rows\<rparr>))"

text \<open>
  \<open>Event.create\<close>: the event row, then its category rows, in one transaction.
  \<open>title\<close>, \<open>location\<close> and \<open>start_time\<close> are NOT NULL and \<open>creator_id\<close> references
  \<open>users\<close>.
\<close>

definition Event_create :: "db_env \<Rightarrow> event_data \<Rightarrow> db \<Rightarrow> (db_error + event_view option) \<times> db" where
  "Event_create env eventData d =
     (case (to_sql (ed_title eventData),
            ST_MakePoint (ed_longitude eventData) (ed_latitude eventData),
            to_sql (ed_startTime eventData)) of
        (Some title, Some location, Some startTime) \<Rightarrow>
          if new_id env \<in> evt_id ` set (events d) then (Inl UniqueViolation, d)
          else if (case to_sql (ed_creatorId eventData) of
                     None \<Rightarrow> False | Some c \<Rightarrow> c \<notin> usr_id ` set (users d))
          then (Inl ForeignKeyViolation, d)
          else
            (let event = \<lparr>evt_id = new_id env, evt_title = title,
                           evt_description = to_sql (ed_description eventData),
                           evt_location = location, evt_address = to_sql (ed_address eventData),
                           evt_start_time = startTime, evt_end_time = to_sql (ed_endTime eventData),
                           evt_creator_id = to_sql (ed_creatorId eventData),
                           evt_created_at = now env, evt_updated_at = now env\<rparr>;
                 d1 = d\<lparr>events := events d @ [event]\<rparr>
             in case ed_categories eventData of
                  Val cs \<Rightarrow>
                    if cs \<noteq> [] then
                      (case insert_event_categories (map (\<lambda>categoryId. (evt_id event, categoryId)) cs) d1 of
                         Inl err \<Rightarrow> (Inl err, d)
                       | Inr d2 \<Rightarrow> (Inr (Event_getById (evt_id event) d2), d2))
                    else (Inr (Event_getById (evt_id event) d1), d1)
                | _ \<Rightarrow> (Inr (Event_getById (evt_id event) d1), d1))
      | _ \<Rightarrow> (Inl NotNullViolation, d))"

text \<open>The SET clause of \<open>Event.update\<close> applied to one row.\<close>

definition update_event_row :: "int \<Rightarrow> event_data \<Rightarrow> event_row \<Rightarrow> event_row" where
  "update_event_row t eventData e =
     e\<lparr>evt_title := (if truthy_str (ed_title eventData)
                       then val_or (ed_title eventData) (evt_title e) else evt_title e),
        evt_description := (if ed_description eventData \<noteq> Undefined
                             then to_sql (ed_description eventData) else evt_description e),
        evt_location := (if truthy_real (ed_latitude eventData) \<and> truthy_real (ed_longitude eventData)
                          then (case ST_MakePoint (ed_longitude eventData) (ed_latitude eventData) of
                                  Some g \<Rightarrow> g | None \<Rightarrow> evt_location e)
                          else evt_location e),
        evt_address := (if truthy_str (ed_address eventData)
                         then to_sql (ed_address eventData) else evt_address e),
        evt_start_time := (if truthy_val (ed_startTime eventData)
                            then val_or (ed_startTime eventData) (evt_start_time e)
                            else evt_start_time e),
        evt_end_time := (if ed_endTime eventData \<noteq> Undefined
                          then to_sql (ed_endTime eventData) else evt_end_time e),
        evt_updated_at := t\<rparr>"

text \<open>\<open>updateFields.length === 1\<close>: only \<open>updated_at\<close> was pushed. The categories are not a field of this list.\<close>

definition no_event_fields :: "event_data \<Rightarrow> bool" where
  "no_event_fields eventData =
     (\<not> truthy_str (ed_title eventData) \<and> ed_description eventData = Undefined
      \<and> \<not> (truthy_real (ed_latitude eventData) \<and> truthy_real (ed_longitude eventData))
      \<and> \<not> truthy_str (ed_address eventData) \<and> \<not> truthy_val (ed_startTime eventData)
      \<and> ed_endTime eventData = Undefined)"

text \<open>
  \<open>Event.update\<close>: with no field to set it returns the event as it is; otherwise it
  updates the row and, when \<open>categories\<close> is an array, replaces the associations, in one
  transaction.
\<close>

definition Event_update :: "db_env \<Rightarrow> int \<Rightarrow> event_data \<Rightarrow> db \<Rightarrow> (db_error + event_view option) \<times> db" where
  "Event_update env eid eventData d =
     (if no_event_fields eventData then (Inr (Event_getById eid d), d)
      else
        (let d1 = d\<lparr>events := map (\<lambda>e. if evt_id e = eid then update_event_row (now env) eventData e else e)
                                  (events d)\<rparr>
         in case ed_categories eventData of
              Val cs \<Rightarrow>
                (let d2 = d1\<lparr>event_categories := filter (\<lambda>ec. fst ec \<noteq> eid) (event_categories d1)\<rparr>
                 in if cs \<noteq> [] then
                      (case insert_event_categories (map (\<lambda>categoryId. (eid, categoryId)) cs) d2 of
                         Inl err \<Rightarrow> (Inl err, d)
                       | Inr d3 \<Rightarrow> (Inr (Event_getById eid d3), d3))
                    else (Inr (Event_getById eid d2), d2))
            | _ \<Rightarrow> (Inr (Event_getById eid d1), d1)))"

text \<open>
  \<open>Event.delete\<close>: \<open>DELETE FROM events WHERE id = $1 RETURNING id\<close>, true when a row
  was deleted; the database removes the dependent rows with it.
\<close>

definition Event_delete :: "int \<Rightarrow> db \<Rightarrow> bool \<times> db" where
  "Event_delete eid d =
     (filter (\<lambda>e. evt_id e = eid) (events d) \<noteq> [],
      cascade_event_delete eid (d\<lparr>events := filter (\<lambda>e. evt_id e \<noteq> eid) (events d)\<rparr>))"

subsection \<open>Reviews\<close>

text \<open>
  \<open>Event.addReview\<close>: an UPDATE of the rows of the pair when the SELECT finds one,
  an INSERT otherwise. The inserted row refers to a stored event and takes its id from
  the sequence.
\<close>

definition Event_addReview ::
  "db_env \<Rightarrow> int \<Rightarrow> int \<Rightarrow> int \<Rightarrow> string field \<Rightarrow> db \<Rightarrow> (db_error + review_row option) \<times> db" where
  "Event_addReview env eventId userId rating review d =
     (let of_pair = (\<lambda>r. rev_event_id r = eventId \<and> rev_user_id r = userId);
          existingReviewResult = filter of_pair (event_reviews d)
      in if existingReviewResult \<noteq> [] then
           (let write = (\<lambda>r. r\<lparr>rev_rating := rating, rev_review := to_sql review,
                                rev_updated_at := now env\<rparr>)
            in (Inr (first_row (map write existingReviewResult)),
                d\<lparr>event_reviews := map (\<lambda>r. if of_pair r then write r else r) (event_reviews d)\<rparr>))
         else if new_id env \<in> rev_id ` set (event_reviews d) then (Inl UniqueViolation, d)
         else if \<not> event_exists d eventId then (Inl ForeignKeyViolation, d)
         else
           (let row = \<lparr>rev_id = new_id env, rev_event_id = eventId, rev_user_id = userId,
                        rev_rating = rating, rev_review = to_sql review,
                        rev_created_at = now env, rev_updated_at = now env\<rparr>
            in (Inr (Some row), d\<lparr>event_reviews := event_reviews d @ [row]\<rparr>)))"

subsection \<open>Favourites\<close>

definition Event_isFavorited :: "int \<Rightarrow> int \<Rightarrow> db \<Rightarrow> bool" where
  "Event_isFavorited userId eventId d =
     (filter (\<lambda>f. fav_user_id f = userId \<and> fav_event_id f = eventId) (user_favorite_events d) \<noteq> [])"

text \<open>
  \<open>Event.favoriteEvent\<close>: \<open>INSERT ... ON CONFLICT (user_id, event_id) DO NOTHING
  RETURNING ...\<close>; the result is \<open>undefined\<close> when the pair was there already.
\<close>

definition Event_favoriteEvent :: "db_env \<Rightarrow> int \<Rightarrow> int \<Rightarrow> db \<Rightarrow> (db_error + favorite_row option) \<times> db" where
  "Event_favoriteEvent env userId eventId d =
     (if Event_isFavorited userId eventId d then (Inr None, d)
      else if \<not> event_exists d eventId then (Inl ForeignKeyViolation, d)
      else
        (let row = \<lparr>fav_user_id = userId, fav_event_id = eventId, fav_created_at = now env\<rparr>
         in (Inr (Some row), d\<lparr>user_favorite_events := user_favorite_events d @ [row]\<rparr>)))"

text \<open>\<open>Event.unfavoriteEvent\<close>: \<open>DELETE ... RETURNING\<close>; true when a row was deleted.\<close>

definition Event_unfavoriteEvent :: "int \<Rightarrow> int \<Rightarrow> db \<Rightarrow> bool \<times> db" where
  "Event_unfavoriteEvent userId eventId d =
     (filter (\<lambda>f. fav_user_id f = userId \<and> fav_event_id f = eventId) (user_favorite_events d) \<noteq> [],
      d\<lparr>user_favorite_events :=
           filter (\<lambda>f. \<not> (fav_user_id f = userId \<and> fav_event_id f = eventId)) (user_favorite_events d)\<rparr>)"

text \<open>
  The JSON answer of a controller: status code, \<open>success\<close> and the message key given to
  \<open>req.t\<close>.
\<close>

record http_response =
  res_status :: nat
  res_success :: bool
  res_message :: string

text \<open>
  \<open>userController.unfavoriteEvent\<close> for the authenticated user \<open>req.user.id\<close> and the
  event id of the route.
\<close>

definition userController_unfavoriteEvent :: "int \<Rightarrow> int \<Rightarrow> db \<Rightarrow> http_response \<times> db" where
  "userController_unfavoriteEvent user_id eventId d =
     (let (result, d') = Event_unfavoriteEvent user_id eventId d
      in if \<not> result
         then (\<lparr>res_status = 404, res_success = False, res_message = ''notFound''\<rparr>, d')
         else (\<lparr>res_status = 200, res_success = True, res_message = ''eventUnfavorited''\<rparr>, d'))"

subsection \<open>The event service and the update validation\<close>

text \<open>An error made by \<open>createError(message, statusCode)\<close>.\<close>

datatype http_error = HttpError nat string

definition handleDatabaseError :: "db_error \<Rightarrow> http_error" where
  "handleDatabaseError err =
     (case err of
        UniqueViolation \<Rightarrow> HttpError 400 ''alreadyExists''
      | ForeignKeyViolation \<Rightarrow> HttpError 400 ''referenceError''
      | _ \<Rightarrow> HttpError 500 ''serverError'')"

definition Category_getById :: "int \<Rightarrow> db \<Rightarrow> category_row option" where
  "Category_getById cid d = first_row (filter (\<lambda>c. cat_id c = cid) (categories d))"

text \<open>The loop of the services that looks every category of the request up.\<close>

definition categories_exist :: "int list field \<Rightarrow> db \<Rightarrow> bool" where
  "categories_exist cats d =
     (case cats of
        Val cs \<Rightarrow> list_all (\<lambda>categoryId. Category_getById categoryId d \<noteq> None) cs
      | _ \<Rightarrow> True)"

definition EventService_updateEvent ::
  "db_env \<Rightarrow> int \<Rightarrow> event_data \<Rightarrow> int \<Rightarrow> db \<Rightarrow> (http_error + event_view option) \<times> db" where
  "EventService_updateEvent env eid eventData userId d =
     (case Event_getById eid d of
        None \<Rightarrow> (Inl (HttpError 404 ''notFound''), d)
      | Some existingEvent \<Rightarrow>
          if evt_creator_id (view_event existingEvent) \<noteq> Some userId
          then (Inl (HttpError 403 ''unauthorized''), d)
          else if \<not> categories_exist (ed_categories eventData) d
          then (Inl (HttpError 400 ''categoryNotFound''), d)
          else (case Event_update env eid eventData d of
                  (Inl err, d') \<Rightarrow> (Inl (handleDatabaseError err), d')
                | (Inr event, d') \<Rightarrow> (Inr event, d')))"

text \<open>
  The \<open>endTime\<close> rule of \<open>eventUpdateValidation\<close>:
  \<open>.optional().isISO8601().custom(...)\<close>. An absent field is skipped; \<open>null\<close> is no date;
  the custom validator throws when \<open>endTime\<close> and \<open>req.body.startTime\<close> are both truthy
  and \<open>new Date(endTime) <= new Date(req.body.startTime)\<close>.
\<close>

definition endTime_custom :: "event_data \<Rightarrow> bool" where
  "endTime_custom body =
     (\<not> (truthy_val (ed_endTime body) \<and> truthy_val (ed_startTime body)
         \<and> val_or (ed_endTime body) 0 \<le> val_or (ed_startTime body) 0))"

definition endTime_rule :: "event_data \<Rightarrow> string list" where
  "endTime_rule body =
     (if ed_endTime body = Undefined then []
      else (if ed_endTime body = Null then [''End time must be a valid date''] else [])
           @ (if endTime_custom body then [] else [''End time must be after start time'']))"

subsection \<open>The store as a state machine\<close>

text \<open>The mutating operations of the models, and the store each leaves behind.\<close>

datatype store_op =
    UserCreate db_env string user_data
  | UserUpdate db_env int user_data
  | EventCreate db_env event_data
  | EventUpdate db_env int event_data
  | EventDelete int
  | AddReview db_env int int int "string field"
  | FavoriteEvent db_env int int
  | UnfavoriteEvent int int

fun apply_op :: "store_op \<Rightarrow> db \<Rightarrow> db" where
  "apply_op (UserCreate env h u) d = snd (User_create env h u d)"
| "apply_op (UserUpdate env uid u) d = snd (User_update env uid u d)"
| "apply_op (EventCreate env e) d = snd (Event_create env e d)"
| "apply_op (EventUpdate env eid e) d = snd (Event_update env eid e d)"
| "apply_op (EventDelete eid) d = snd (Event_delete eid d)"
| "apply_op (AddReview env eventId userId rating review) d = snd (Event_addReview env eventId userId rating review d)"
| "apply_op (FavoriteEvent env userId eventId) d = snd (Event_favoriteEvent env userId eventId d)"
| "apply_op (UnfavoriteEvent userId eventId) d = snd (Event_unfavoriteEvent userId eventId d)"

text \<open>A sequence of operations, applied from the left, and the store before any.\<close>

definition run_ops :: "store_op list \<Rightarrow> db \<Rightarrow> db" where
  "run_ops ops d = foldl (\<lambda>s op. apply_op op s) d ops"

definition empty_db :: db where
  "empty_db = \<lparr>users = [], events = [], categories = [], event_categories = [],
     event_reviews = [], user_favorite_events = []\<rparr>"

text \<open>At most one review for every pair of an event and a user.\<close>

definition reviews_unique :: "db \<Rightarrow> bool" where
  "reviews_unique d = distinct (map (\<lambda>r. (rev_event_id r, rev_user_id r)) (event_reviews d))"

text \<open>The reviews a user left on an event.\<close>

definition reviews_of :: "db \<Rightarrow> int \<Rightarrow> int \<Rightarrow> review_row list" where
  "reviews_of d eventId userId =
     filter (\<lambda>r. rev_event_id r = eventId \<and> rev_user_id r = userId) (event_reviews d)"

section \<open>A sample store\<close>

text \<open>
  Two events at the point (0, 0), the one added first starting later, and one event at
  the antipode (0, 180); two categories; one user, who created the events.
\<close>

definition origin :: geo where
  "origin = \<lparr>geo_lat = 0, geo_lon = 0\<rparr>"

definition antipode :: geo where
  "antipode = \<lparr>geo_lat = 0, geo_lon = 180\<rparr>"

definition late_event :: event_row where
  "late_event = \<lparr>evt_id = 1, evt_title = ''Late show'', evt_description = None,
     evt_location = origin, evt_address = None, evt_start_time = 2000, evt_end_time = None,
     evt_creator_id = Some 7, evt_created_at = 10, evt_updated_at = 10\<rparr>"

definition early_event :: event_row where
  "early_event = \<lparr>evt_id = 2, evt_title = ''Early show'', evt_description = None,
     evt_location = origin, evt_address = None, evt_start_time = 1000, evt_end_time = None,
     evt_creator_id = Some 7, evt_created_at = 20, evt_updated_at = 20\<rparr>"

definition far_event :: event_row where
  "far_event = \<lparr>evt_id = 3, evt_title = ''Far away'', evt_description = None,
     evt_location = antipode, evt_address = None, evt_start_time = 500, evt_end_time = None,
     evt_creator_id = Some 7, evt_created_at = 30, evt_updated_at = 30\<rparr>"

definition music :: category_row where
  "music = \<lparr>cat_id = 1, cat_name = ''Music''\<rparr>"

definition technology :: category_row where
  "technology = \<lparr>cat_id = 2, cat_name = ''Technology''\<rparr>"

definition organiser :: user_row where
  "organiser = \<lparr>usr_id = 7, usr_username = ''ada'', usr_email = ''ada@example.org'',
     usr_password = ''hashedpassword'', usr_full_name = None,
     usr_location = Some \<lparr>geo_lat = 38.5, geo_lon = - 121.5\<rparr>,
     usr_preferred_language = Some ''en'', usr_created_at = 1, usr_updated_at = 1\<rparr>"

definition sample_db :: db where
  "sample_db = \<lparr>users = [organiser], events = [late_event, early_event, far_event],
     categories = [music, technology],
     event_categories = [(1, 1), (2, 1), (2, 2), (3, 1)],
     event_reviews = [], user_favorite_events = []\<rparr>"

definition sample_search :: location_options where
  "sample_search = \<lparr>so_latitude = 0, so_longitude = 0, so_radius = 5, so_categoryIds = [],
     so_startDate = None, so_endDate = None, so_page = 1, so_limit = 10\<rparr>"

definition sample_listing :: list_options where
  "sample_listing = \<lparr>lo_page = 1, lo_limit = 10, lo_categoryIds = [Fin 2, Fin 1],
     lo_creatorId = Some 7, lo_startDate = Some 600, lo_endDate = None\<rparr>"

definition tick :: db_env where
  "tick = \<lparr>now = 99, new_id = 50\<rparr>"

definition blank_update :: event_data where
  "blank_update = \<lparr>ed_title = Undefined, ed_description = Undefined, ed_latitude = Undefined,
     ed_longitude = Undefined, ed_address = Undefined, ed_startTime = Undefined,
     ed_endTime = Undefined, ed_creatorId = Undefined, ed_categories = Undefined\<rparr>"

text \<open>An update that supplies only a new category list.\<close>

definition categories_only :: event_data where
  "categories_only = blank_update\<lparr>ed_categories := Val [2]\<rparr>"

text \<open>An update that supplies only an end time, before the start of the events of the sample.\<close>

definition end_only :: event_data where
  "end_only = blank_update\<lparr>ed_endTime := Val 500\<rparr>"

text \<open>An update that moves an event to latitude 0, and the same with a new title.\<close>

definition to_equator :: event_data where
  "to_equator = blank_update\<lparr>ed_latitude := Val 0, ed_longitude := Val 10\<rparr>"

definition to_equator_renamed :: event_data where
  "to_equator_renamed = to_equator\<lparr>ed_title := Val ''Equator party''\<rparr>"

definition equator_user :: user_data where
  "equator_user = \<lparr>ud_username = Val ''bob'', ud_email = Val ''bob@example.org'',
     ud_fullName = Undefined, ud_latitude = Val 0, ud_longitude = Val 10,
     ud_preferredLanguage = Undefined\<rparr>"

definition first_review :: store_op where
  "first_review = AddReview tick 1 7 4 (Val ''Good'')"

definition second_review :: store_op where
  "second_review = AddReview \<lparr>now = 120, new_id = 51\<rparr> 1 7 2 (Val ''Changed my mind'')"

definition good_review :: review_row where
  "good_review = \<lparr>rev_id = 50, rev_event_id = 1, rev_user_id = 7, rev_rating = 4,
     rev_review = Some ''Good'', rev_created_at = 99, rev_updated_at = 99\<rparr>"

definition changed_review :: review_row where
  "changed_review = \<lparr>rev_id = 50, rev_event_id = 1, rev_user_id = 7, rev_rating = 2,
     rev_review = Some ''Changed my mind'', rev_created_at = 99, rev_updated_at = 120\<rparr>"

definition reviewed_db :: db where
  "reviewed_db = sample_db\<lparr>event_reviews := [good_review]\<rparr>"

definition bob :: user_row where
  "bob = \<lparr>usr_id = 50, usr_username = ''bob'', usr_email = ''bob@example.org'',
     usr_password = ''hashedpassword'', usr_full_name = None, usr_location = None,
     usr_preferred_language = Some ''en'', usr_created_at = 99, usr_updated_at = 99\<rparr>"

definition shortened_event :: event_row where
  "shortened_event = late_event\<lparr>evt_end_time := Some 500, evt_updated_at := 99\<rparr>"

section \<open>Resolution of the search centre\<close>

lemma fallback_center_spec:
  "fallback_center user env =
     spec_center False undefined (stored_location user) (default_latitude env, default_longitude env)"
  by (simp add: fallback_center_def spec_center_def stored_location_def split: option.splits)

lemma service_center:
  "center_of (SearchService_searchByLocation q user env) =
     spec_center
       (isValidCoordinates (parseFloat (js_to_string (q_latitude q))) (parseFloat (js_to_string (q_longitude q))))
       (parseFloat (js_to_string (q_latitude q)), parseFloat (js_to_string (q_longitude q)))
       (stored_location user) (default_latitude env, default_longitude env)"
  by (simp add: SearchService_searchByLocation_def center_of_def Let_def fallback_center_spec
      spec_center_def split: prod.splits)

lemma controller_center_eq:
  "controller_center (searchController_searchByLocation [] q user env) =
     Some (spec_center
       (\<not> isNaN (parseFloat (js_to_string (q_latitude q))) \<and> \<not> isNaN (parseFloat (js_to_string (q_longitude q))))
       (parseFloat (js_to_string (q_latitude q)), parseFloat (js_to_string (q_longitude q)))
       (stored_location user) (default_latitude env, default_longitude env))"
  by (simp add: searchController_searchByLocation_def controller_center_def center_of_def Let_def
      fallback_center_spec spec_center_def split: prod.splits)

lemma default_unset:
  "DEFAULT_LATITUDE env = QAbsent \<Longrightarrow> default_latitude env = Fin 37.7749"
  "DEFAULT_LONGITUDE env = QAbsent \<Longrightarrow> default_longitude env = Fin (- 122.4194)"
  by (simp_all add: default_latitude_def default_longitude_def js_or_def truthy_num_def parseFloat_def
      str_decimal_literal_def unsigned_decimal_def is_ws_def is_digit_def is_radix_digit_def digit_of_def)

lemma default_configured:
  "DEFAULT_LATITUDE env = QStr s \<Longrightarrow> parseFloat s = Fin r \<Longrightarrow> r \<noteq> 0 \<Longrightarrow> default_latitude env = Fin r"
  "DEFAULT_LONGITUDE env = QStr s \<Longrightarrow> parseFloat s = Fin r \<Longrightarrow> r \<noteq> 0 \<Longrightarrow> default_longitude env = Fin r"
  by (simp_all add: default_latitude_def default_longitude_def js_or_def truthy_num_def)

text \<open>
  C5, at the input where the controller departs from it. Latitude 100 with longitude 0
  is no valid pair and the caller has a stored location: \<open>SearchService.searchByLocation\<close>
  takes the stored location as the centre, as the claim says, and
  \<open>searchController.searchByLocation\<close>, which tests only \<open>isNaN\<close>, searches at (100, 0).
\<close>

theorem controller_keeps_out_of_range_center:
  "\<not> isValidCoordinates (parseFloat (js_to_string (q_latitude out_of_range_query)))
        (parseFloat (js_to_string (q_longitude out_of_range_query)))
   \<and> stored_location (Some sacramento_user) = Some \<lparr>geo_lat = 38.5, geo_lon = - 121.5\<rparr>
   \<and> center_of (SearchService_searchByLocation out_of_range_query (Some sacramento_user) no_env)
       = (Fin 38.5, Fin (- 121.5))
   \<and> controller_center (searchController_searchByLocation [] out_of_range_query (Some sacramento_user) no_env)
       = Some (Fin 100, Fin 0)"
  by code_simp

section \<open>Normalisation of the categories parameter\<close>

lemma categoryIds_length:
  "length (categoryIds_of c) =
     (case c of QAbsent \<Rightarrow> 0 | QStr s \<Rightarrow> (if s = [] then 0 else 1) | QArr xs \<Rightarrow> length xs)"
  by (cases c) (simp_all add: categoryIds_of_def)

lemma categoryIds_keeps_NaN:
  "item \<in> set xs \<Longrightarrow> Number_str item = NaN \<Longrightarrow> NaN \<in> set (categoryIds_of (QArr xs))"
  by (force simp: categoryIds_of_def)

lemma categories_rule_rejects:
  "item \<in> set xs \<Longrightarrow> parseInt item = None \<Longrightarrow> categories_rule (QArr xs) \<noteq> []"
  by (auto simp: categories_rule_def categories_valid_def list_all_iff)

lemma categories_rule_rejects_single:
  "parseInt s = None \<Longrightarrow> categories_rule (QStr s) \<noteq> []"
  by (simp add: categories_rule_def categories_valid_def)

lemma controller_400:
  "errors \<noteq> [] \<Longrightarrow> searchController_searchByLocation errors q user env = Status400 errors"
  by (simp add: searchController_searchByLocation_def)

text \<open>
  C6 (amended). Normalisation coerces every entry with \<open>Number\<close> and drops none: a list
  gives a list of the same length, a single non-empty value a one-element list, and an
  entry that is not a numeric literal stays in the list as NaN. An entry that \<open>parseInt\<close>
  cannot read makes the \<open>categories\<close> validation rule report an error, and a request with
  validation errors is answered 400 without searching.
\<close>

theorem categories_normalisation:
  "length (categoryIds_of c) =
     (case c of QAbsent \<Rightarrow> 0 | QStr s \<Rightarrow> (if s = [] then 0 else 1) | QArr xs \<Rightarrow> length xs)
   \<and> (item \<in> set ys \<and> Number_str item = NaN \<longrightarrow> NaN \<in> set (categoryIds_of (QArr ys)))
   \<and> (item \<in> set ys \<and> parseInt item = None \<longrightarrow> categories_rule (QArr ys) \<noteq> [])
   \<and> (parseInt t = None \<longrightarrow> categories_rule (QStr t) \<noteq> [])
   \<and> (errors \<noteq> [] \<longrightarrow> searchController_searchByLocation errors q user env = Status400 errors)"
  using categoryIds_length [of c] categoryIds_keeps_NaN [of item ys] categories_rule_rejects [of item ys]
    categories_rule_rejects_single [of t] controller_400 [of errors q user env]
  by blast

theorem categories_normalisation_witness:
  "''abc'' \<in> set [''1'', ''abc''] \<and> Number_str ''abc'' = NaN \<and> parseInt ''abc'' = None
   \<and> length (categoryIds_of (QArr [''1'', ''abc''])) = 2
   \<and> NaN \<in> set (categoryIds_of (QArr [''1'', ''abc'']))
   \<and> categories_rule (QArr [''1'', ''abc'']) \<noteq> []
   \<and> categories_rule (QStr ''abc'') \<noteq> []
   \<and> searchController_searchByLocation (categories_rule (QArr [''1'', ''abc''])) mixed_categories_query
        None no_env = Status400 (categories_rule (QArr [''1'', ''abc'']))"
proof -
  have h: "''abc'' \<in> set [''1'', ''abc'']" "Number_str ''abc'' = NaN" "parseInt ''abc'' = None"
    by code_simp+
  note t = categories_normalisation [of "QArr [''1'', ''abc'']" "''abc''" "[''1'', ''abc'']" "''abc''"
      "categories_rule (QArr [''1'', ''abc''])" mixed_categories_query None no_env]
  from t h show ?thesis by simp
qed

theorem categories_counterexample:
  "Number_str ''abc'' = NaN
   \<and> categoryIds_of (q_categories mixed_categories_query) = [Fin 1, NaN]
   \<and> searchController_searchByLocation (categories_rule (q_categories mixed_categories_query))
        mixed_categories_query None no_env = Status400 [''Categories must be valid integers'']"
  by code_simp

section \<open>Location search: radius, order and pagination\<close>

lemma in_joined_events:
  "e \<in> set (joined_events d ids) \<longleftrightarrow>
     e \<in> set (events d) \<and>
     (\<exists>ec \<in> set (event_categories d). \<exists>c \<in> set (categories d).
        evt_id e = fst ec \<and> snd ec = cat_id c \<and> Fin (real_of_int (cat_id c)) \<in> set ids)"
  unfolding joined_events_def by (simp add: Bex_def Int_def set_eq_iff)

lemma set_joined_events:
  "set (joined_events d ids) = {e \<in> set (events d). has_any_category d ids e}"
proof -
  have "(\<exists>ec \<in> set (event_categories d). \<exists>c \<in> set (categories d).
           evt_id e = fst ec \<and> snd ec = cat_id c \<and> Fin (real_of_int (cat_id c)) \<in> set ids)
        = has_any_category d ids e" for e
    unfolding has_any_category_def by metis
  then show ?thesis by (auto simp: in_joined_events)
qed

lemma set_from_events:
  "set (from_events d ids) = {e \<in> set (events d). ids = [] \<or> has_any_category d ids e}"
  by (simp add: from_events_def set_joined_events)

lemma limit_offset_subset:
  "limit_offset n m xs = Inr ys \<Longrightarrow> set ys \<subseteq> set xs"
  by (auto simp: limit_offset_def split: if_splits sum.splits dest: in_set_takeD in_set_dropD)

lemma limit_offset_sorted:
  "limit_offset n m xs = Inr ys \<Longrightarrow> sorted (map f xs) \<Longrightarrow> sorted (map f ys)"
  by (auto simp: limit_offset_def take_map [symmetric] drop_map [symmetric] sorted_wrt_take sorted_wrt_drop
      split: if_splits sum.splits)

lemma location_conditions_iff:
  "location_conditions st_distance opts e =
     (st_distance (evt_location e) (center opts) / 1000 \<le> so_radius opts
      \<and> date_conditions (so_startDate opts) (so_endDate opts) e)"
  by (auto simp: location_conditions_def ST_DWithin_def field_simps)

text \<open>The rows a successful search pages through, and what each returned event is.\<close>

lemma search_result_rows:
  assumes "Event_searchByLocation st_distance opts d = Inr r"
  obtains page_rows where
    "limit_offset (so_limit opts) ((so_page opts - 1) * so_limit opts)
       (sort_key (\<lambda>(e, dkm). (dkm, evt_start_time e))
          (remdups (map (\<lambda>e. (e, distance_km_of st_distance opts e))
             (filter (location_conditions st_distance opts) (from_events d (so_categoryIds opts))))))
     = Inr page_rows"
    "found r = map (\<lambda>(e, dkm). \<lparr>view_event = e,
                       view_categories = categories_of_event d (evt_id e),
                       distance_km = toFixed2 dkm\<rparr>) page_rows"
    "in_list_ok (so_categoryIds opts)"
  using assms
  by (auto simp: Event_searchByLocation_def Let_def split: if_splits sum.splits)

lemma search_page_rows_from:
  assumes "limit_offset n m
       (sort_key (\<lambda>(e, dkm). (dkm, evt_start_time e))
          (remdups (map (\<lambda>e. (e, distance_km_of st_distance opts e))
             (filter (location_conditions st_distance opts) (from_events d ids)))))
     = Inr page_rows"
    and "(e, dkm) \<in> set page_rows"
  shows "e \<in> set (events d) \<and> location_conditions st_distance opts e
         \<and> dkm = distance_km_of st_distance opts e"
proof -
  from limit_offset_subset [OF assms(1)] assms(2)
  have "(e, dkm) \<in> (\<lambda>e. (e, distance_km_of st_distance opts e)) `
          {e \<in> set (from_events d ids). location_conditions st_distance opts e}"
    by auto
  then show ?thesis by (auto simp: set_from_events)
qed

text \<open>
  C1. Every event a location search returns is an event of the store whose stored
  location lies within the radius of the centre, by the distance the database computes.
\<close>

theorem search_within_radius:
  assumes "Event_searchByLocation st_distance opts d = Inr r"
    and "v \<in> set (found r)"
  shows "view_event v \<in> set (events d)
         \<and> st_distance (evt_location (view_event v)) (center opts) / 1000 \<le> so_radius opts"
proof -
  from assms(1) obtain page_rows where
    rows: "limit_offset (so_limit opts) ((so_page opts - 1) * so_limit opts)
       (sort_key (\<lambda>(e, dkm). (dkm, evt_start_time e))
          (remdups (map (\<lambda>e. (e, distance_km_of st_distance opts e))
             (filter (location_conditions st_distance opts) (from_events d (so_categoryIds opts))))))
     = Inr page_rows"
    and res: "found r = map (\<lambda>(e, dkm). \<lparr>view_event = e,
                       view_categories = categories_of_event d (evt_id e),
                       distance_km = toFixed2 dkm\<rparr>) page_rows"
    by (rule search_result_rows)
  from assms(2) res obtain e dkm where in_page: "(e, dkm) \<in> set page_rows" and v: "view_event v = e"
    by auto
  from search_page_rows_from [OF rows in_page]
  have "e \<in> set (events d)" and "location_conditions st_distance opts e" by simp_all
  with v show ?thesis by (simp add: location_conditions_iff)
qed

text \<open>
  C2. The events of a location search come in ascending order of distance from the
  centre, and two events at the same distance in ascending order of start time.
\<close>

theorem search_sorted:
  assumes "Event_searchByLocation st_distance opts d = Inr r"
  shows "sorted_wrt (nearer_or_earlier st_distance opts) (found r)"
proof -
  let ?key = "\<lambda>(e, dkm). (dkm :: real, evt_start_time e)"
  let ?mk = "\<lambda>(e, dkm). \<lparr>view_event = e, view_categories = categories_of_event d (evt_id e),
                       distance_km = toFixed2 dkm\<rparr>"
  from assms obtain page_rows where
    rows: "limit_offset (so_limit opts) ((so_page opts - 1) * so_limit opts)
       (sort_key ?key
          (remdups (map (\<lambda>e. (e, distance_km_of st_distance opts e))
             (filter (location_conditions st_distance opts) (from_events d (so_categoryIds opts))))))
     = Inr page_rows"
    and res: "found r = map ?mk page_rows"
    by (rule search_result_rows)
  have "sorted (map ?key page_rows)"
    by (rule limit_offset_sorted [OF rows]) (rule sorted_sort_key)
  then have by_key: "sorted_wrt (\<lambda>x y. ?key x \<le> ?key y) page_rows"
    by (simp add: sorted_map)
  have "sorted_wrt (\<lambda>x y. nearer_or_earlier st_distance opts (?mk x) (?mk y)) page_rows"
  proof (rule sorted_wrt_mono_rel [OF _ by_key])
    fix x y
    assume x: "x \<in> set page_rows" and y: "y \<in> set page_rows" and le: "?key x \<le> ?key y"
    obtain e1 d1 where x_eq: "x = (e1, d1)" by (cases x)
    obtain e2 d2 where y_eq: "y = (e2, d2)" by (cases y)
    from search_page_rows_from [OF rows] x x_eq
    have d1: "d1 = distance_km_of st_distance opts e1" by blast
    from search_page_rows_from [OF rows] y y_eq
    have d2: "d2 = distance_km_of st_distance opts e2" by blast
    from le x_eq y_eq have "d1 < d2 \<or> (d1 = d2 \<and> evt_start_time e1 \<le> evt_start_time e2)"
      by auto
    with d1 d2 x_eq y_eq
    show "nearer_or_earlier st_distance opts (?mk x) (?mk y)"
      by (auto simp: nearer_or_earlier_def distance_km_of_def)
  qed
  with res show ?thesis by (simp add: sorted_wrt_map)
qed

subsection \<open>Sample searches\<close>

lemma haversine_same: "haversine_m p p = 0"
  by (simp add: haversine_m_def calculateDistance_def Math_atan2_def)

lemma haversine_antipode: "haversine_m antipode origin = 6371000 * pi"
  by (simp add: haversine_m_def calculateDistance_def Math_atan2_def antipode_def origin_def)

lemma antipode_is_far: "\<not> haversine_m antipode origin \<le> 5000"
proof -
  have "(5000::real) < 6371000 * 2" by simp
  also have "\<dots> \<le> 6371000 * pi" using pi_ge_two by simp
  finally show ?thesis by (simp add: haversine_antipode)
qed

lemma ceiling_fifth: "\<lceil>1 / 5 :: real\<rceil> = 1"
  by (simp add: ceiling_eq_iff)

lemma sample_search_result:
  "Event_searchByLocation haversine_m sample_search sample_db =
     Inr \<lparr>found = [\<lparr>view_event = early_event, view_categories = [music, technology], distance_km = 0\<rparr>,
                    \<lparr>view_event = late_event, view_categories = [music], distance_km = 0\<rparr>],
          found_pagination = \<lparr>pg_total = 2, pg_page = 1, pg_limit = 10, pg_pages = Fin 1\<rparr>\<rparr>"
  using antipode_is_far ceiling_fifth
  by (simp add: Event_searchByLocation_def sample_search_def sample_db_def in_list_ok_def from_events_def
      location_conditions_def ST_DWithin_def center_def date_conditions_def distance_km_of_def
      late_event_def early_event_def far_event_def limit_offset_def param_bigint_def radius_metres_def
      categories_of_event_def music_def technology_def toFixed2_def js_div_def haversine_same
      origin_def [symmetric])

lemma sample_listing_result:
  "Event_getAll sample_listing sample_db =
     Inr \<lparr>listed = [\<lparr>view_event = early_event, view_categories = [music, technology]\<rparr>,
                     \<lparr>view_event = late_event, view_categories = [music]\<rparr>],
          listed_pagination = \<lparr>pg_total = 2, pg_page = 1, pg_limit = 10, pg_pages = Fin 1\<rparr>\<rparr>"
  by code_simp

lemma sample_fraction_radius:
  "Event_searchByLocation haversine_m (sample_search\<lparr>so_radius := 2.5\<rparr>) sample_db
     = Inl InvalidTextRepresentation"
proof -
  have "\<lfloor>5 / 2 :: real\<rfloor> = 2" by (simp add: floor_eq_iff)
  then show ?thesis
    by (simp add: Event_searchByLocation_def Let_def sample_search_def in_list_ok_def radius_metres_def)
qed

theorem search_within_radius_witness:
  "Event_searchByLocation haversine_m sample_search sample_db =
     Inr \<lparr>found = [\<lparr>view_event = early_event, view_categories = [music, technology], distance_km = 0\<rparr>,
                    \<lparr>view_event = late_event, view_categories = [music], distance_km = 0\<rparr>],
          found_pagination = \<lparr>pg_total = 2, pg_page = 1, pg_limit = 10, pg_pages = Fin 1\<rparr>\<rparr>
   \<and> early_event \<in> set (events sample_db)
   \<and> haversine_m (evt_location early_event) (center sample_search) / 1000 \<le> so_radius sample_search"
  using search_within_radius [OF sample_search_result,
      of "\<lparr>view_event = early_event, view_categories = [music, technology], distance_km = 0\<rparr>"]
    sample_search_result
  by simp

theorem search_sorted_witness:
  "Event_searchByLocation haversine_m sample_search sample_db =
     Inr \<lparr>found = [\<lparr>view_event = early_event, view_categories = [music, technology], distance_km = 0\<rparr>,
                    \<lparr>view_event = late_event, view_categories = [music], distance_km = 0\<rparr>],
          found_pagination = \<lparr>pg_total = 2, pg_page = 1, pg_limit = 10, pg_pages = Fin 1\<rparr>\<rparr>
   \<and> nearer_or_earlier haversine_m sample_search
        \<lparr>view_event = early_event, view_categories = [music, technology], distance_km = 0\<rparr>
        \<lparr>view_event = late_event, view_categories = [music], distance_km = 0\<rparr>"
  using search_sorted [OF sample_search_result] sample_search_result
  by simp

subsection \<open>Pagination\<close>

lemma count_by_id:
  "int (length (remdups (map evt_id (filter P xs)))) = int (card (evt_id ` {e \<in> set xs. P e}))"
  by (simp add: length_remdups_card_conv)

lemma search_rows_set:
  "{e \<in> set (from_events d (so_categoryIds opts)). location_conditions st_distance opts e}
   = {e \<in> set (events d). location_match st_distance opts d e}"
  by (auto simp: set_from_events location_match_def location_conditions_iff)

lemma list_rows_set:
  "{e \<in> set (from_events d (lo_categoryIds opts)). list_conditions opts e}
   = {e \<in> set (events d). list_match opts d e}"
  by (auto simp: set_from_events list_match_def)

lemma ceil_positive_limit:
  "0 < l \<Longrightarrow> Math_ceil (js_div t l) = Fin (of_int \<lceil>real_of_int t / real_of_int l\<rceil>)"
  by (simp add: js_div_def)

lemma search_pagination:
  assumes "Event_searchByLocation st_distance opts d = Inr r"
  shows "found_pagination r =
           \<lparr>pg_total = count_events d (location_match st_distance opts d),
            pg_page = so_page opts, pg_limit = so_limit opts,
            pg_pages = Math_ceil (js_div (count_events d (location_match st_distance opts d)) (so_limit opts))\<rparr>"
proof -
  have "int (length (remdups (map evt_id
          (filter (location_conditions st_distance opts) (from_events d (so_categoryIds opts))))))
        = count_events d (location_match st_distance opts d)"
    unfolding count_by_id search_rows_set count_events_def ..
  with assms show ?thesis
    by (auto simp: Event_searchByLocation_def Let_def split: if_splits sum.splits)
qed

lemma list_pagination:
  assumes "Event_getAll opts d = Inr r"
  shows "listed_pagination r =
           \<lparr>pg_total = count_events d (list_match opts d),
            pg_page = lo_page opts, pg_limit = lo_limit opts,
            pg_pages = Math_ceil (js_div (count_events d (list_match opts d)) (lo_limit opts))\<rparr>"
proof -
  have "int (length (remdups (map evt_id
          (filter (list_conditions opts) (from_events d (lo_categoryIds opts))))))
        = count_events d (list_match opts d)"
    unfolding count_by_id list_rows_set count_events_def ..
  with assms show ?thesis
    by (auto simp: Event_getAll_def Let_def split: if_splits sum.splits)
qed

text \<open>The database accepts a radius of a whole number of kilometres up to 2147483.\<close>

lemma radius_metres_whole:
  assumes "- 2147483 \<le> k" and "k \<le> 2147483"
  shows "radius_metres (real_of_int k) = Inr (k * 1000)"
  using assms by (simp add: radius_metres_def Let_def)

text \<open>What a non-integer radius does: the statement fails, and so does the search.\<close>

lemma radius_metres_fraction:
  "real_of_int \<lfloor>radius\<rfloor> \<noteq> radius \<Longrightarrow> radius_metres radius = Inl InvalidTextRepresentation"
  by (simp add: radius_metres_def Let_def)

lemma search_fails_on_fraction:
  "in_list_ok (so_categoryIds opts) \<Longrightarrow> real_of_int \<lfloor>so_radius opts\<rfloor> \<noteq> so_radius opts \<Longrightarrow>
     Event_searchByLocation st_distance opts d = Inl InvalidTextRepresentation"
  by (simp add: Event_searchByLocation_def Let_def radius_metres_fraction)

text \<open>
  The first page of ten is answered when the category list prints as numbers and, for
  the location search, the database accepts the radius.
\<close>

lemma first_page_bounds: "limit_offset 10 0 rows = Inr (take 10 rows)"
  by (simp add: limit_offset_def param_bigint_def)

lemma search_returns:
  "in_list_ok (so_categoryIds opts) \<Longrightarrow> radius_metres (so_radius opts) = Inr m \<Longrightarrow>
     so_page opts = 1 \<Longrightarrow> so_limit opts = 10 \<Longrightarrow>
     \<exists>r. Event_searchByLocation st_distance opts d = Inr r"
  by (simp add: Event_searchByLocation_def Let_def first_page_bounds)

lemma list_returns:
  "in_list_ok (lo_categoryIds opts) \<Longrightarrow> lo_page opts = 1 \<Longrightarrow> lo_limit opts = 10 \<Longrightarrow>
     \<exists>r. Event_getAll opts d = Inr r"
  by (simp add: Event_getAll_def Let_def first_page_bounds)

text \<open>
  C7. In the result of \<open>Event.searchByLocation\<close> and of \<open>Event.getAll\<close>, \<open>total\<close> is the
  number of events that match all filters, \<open>page\<close> and \<open>limit\<close> repeat the arguments, and
  \<open>pages\<close> is \<open>Math.ceil(total / limit)\<close>, the ceiling of the quotient for a positive
  limit. A first page of limit 10 over two matching events is answered, with
  \<open>{total: 2, page: 1, limit: 10, pages: 1}\<close>; for the location search this needs a
  radius the database accepts, a whole number of kilometres up to 2147483.
\<close>

theorem pagination_shape:
  "(Event_searchByLocation st_distance opts d = Inr r \<longrightarrow>
      pg_total (found_pagination r) = count_events d (location_match st_distance opts d)
      \<and> pg_page (found_pagination r) = so_page opts
      \<and> pg_limit (found_pagination r) = so_limit opts
      \<and> pg_pages (found_pagination r) = Math_ceil (js_div (pg_total (found_pagination r)) (so_limit opts))
      \<and> (0 < so_limit opts \<longrightarrow>
           pg_pages (found_pagination r) =
             Fin (of_int \<lceil>real_of_int (pg_total (found_pagination r)) / real_of_int (so_limit opts)\<rceil>)))
   \<and> (Event_getAll lopts d = Inr l \<longrightarrow>
      pg_total (listed_pagination l) = count_events d (list_match lopts d)
      \<and> pg_page (listed_pagination l) = lo_page lopts
      \<and> pg_limit (listed_pagination l) = lo_limit lopts
      \<and> pg_pages (listed_pagination l) = Math_ceil (js_div (pg_total (listed_pagination l)) (lo_limit lopts))
      \<and> (0 < lo_limit lopts \<longrightarrow>
           pg_pages (listed_pagination l) =
             Fin (of_int \<lceil>real_of_int (pg_total (listed_pagination l)) / real_of_int (lo_limit lopts)\<rceil>)))
   \<and> (in_list_ok (so_categoryIds opts)
        \<and> so_radius opts = real_of_int k \<and> - 2147483 \<le> k \<and> k \<le> 2147483
        \<and> so_page opts = 1 \<and> so_limit opts = 10
        \<and> count_events d (location_match st_distance opts d) = 2 \<longrightarrow>
      (\<exists>r'. Event_searchByLocation st_distance opts d = Inr r'
         \<and> found_pagination r' = \<lparr>pg_total = 2, pg_page = 1, pg_limit = 10, pg_pages = Fin 1\<rparr>))
   \<and> (in_list_ok (lo_categoryIds lopts) \<and> lo_page lopts = 1 \<and> lo_limit lopts = 10
        \<and> count_events d (list_match lopts d) = 2 \<longrightarrow>
      (\<exists>l'. Event_getAll lopts d = Inr l'
         \<and> listed_pagination l' = \<lparr>pg_total = 2, pg_page = 1, pg_limit = 10, pg_pages = Fin 1\<rparr>))"
proof (intro conjI impI)
  assume two: "in_list_ok (so_categoryIds opts)
        \<and> so_radius opts = real_of_int k \<and> - 2147483 \<le> k \<and> k \<le> 2147483
        \<and> so_page opts = 1 \<and> so_limit opts = 10
        \<and> count_events d (location_match st_distance opts d) = 2"
  then have "radius_metres (so_radius opts) = Inr (k * 1000)"
    by (simp add: radius_metres_whole)
  with two obtain r' where r': "Event_searchByLocation st_distance opts d = Inr r'"
    using search_returns [of opts "k * 1000" st_distance d] by auto
  from search_pagination [OF r'] two ceiling_fifth
  have "found_pagination r' = \<lparr>pg_total = 2, pg_page = 1, pg_limit = 10, pg_pages = Fin 1\<rparr>"
    by (simp add: js_div_def)
  with r' show "\<exists>r'. Event_searchByLocation st_distance opts d = Inr r'
         \<and> found_pagination r' = \<lparr>pg_total = 2, pg_page = 1, pg_limit = 10, pg_pages = Fin 1\<rparr>"
    by blast
next
  assume two: "in_list_ok (lo_categoryIds lopts) \<and> lo_page lopts = 1 \<and> lo_limit lopts = 10
        \<and> count_events d (list_match lopts d) = 2"
  then obtain l' where l': "Event_getAll lopts d = Inr l'"
    using list_returns [of lopts d] by auto
  from list_pagination [OF l'] two ceiling_fifth
  have "listed_pagination l' = \<lparr>pg_total = 2, pg_page = 1, pg_limit = 10, pg_pages = Fin 1\<rparr>"
    by (simp add: js_div_def)
  with l' show "\<exists>l'. Event_getAll lopts d = Inr l'
         \<and> listed_pagination l' = \<lparr>pg_total = 2, pg_page = 1, pg_limit = 10, pg_pages = Fin 1\<rparr>"
    by blast
qed (simp_all add: search_pagination list_pagination ceil_positive_limit)

theorem pagination_shape_witness:
  "Event_searchByLocation haversine_m sample_search sample_db =
     Inr \<lparr>found = [\<lparr>view_event = early_event, view_categories = [music, technology], distance_km = 0\<rparr>,
                    \<lparr>view_event = late_event, view_categories = [music], distance_km = 0\<rparr>],
          found_pagination = \<lparr>pg_total = 2, pg_page = 1, pg_limit = 10, pg_pages = Fin 1\<rparr>\<rparr>
   \<and> Event_getAll sample_listing sample_db =
     Inr \<lparr>listed = [\<lparr>view_event = early_event, view_categories = [music, technology]\<rparr>,
                     \<lparr>view_event = late_event, view_categories = [music]\<rparr>],
          listed_pagination = \<lparr>pg_total = 2, pg_page = 1, pg_limit = 10, pg_pages = Fin 1\<rparr>\<rparr>
   \<and> in_list_ok (so_categoryIds sample_search) \<and> so_page sample_search = 1 \<and> so_limit sample_search = 10
   \<and> so_radius sample_search = real_of_int 5 \<and> - 2147483 \<le> (5::int) \<and> (5::int) \<le> 2147483
   \<and> in_list_ok (lo_categoryIds sample_listing) \<and> lo_page sample_listing = 1 \<and> lo_limit sample_listing = 10
   \<and> count_events sample_db (location_match haversine_m sample_search sample_db) = 2
   \<and> count_events sample_db (list_match sample_listing sample_db) = 2"
proof -
  let ?R = "\<lparr>found = [\<lparr>view_event = early_event, view_categories = [music, technology], distance_km = 0\<rparr>,
                    \<lparr>view_event = late_event, view_categories = [music], distance_km = 0\<rparr>],
          found_pagination = \<lparr>pg_total = 2, pg_page = 1, pg_limit = 10, pg_pages = Fin 1\<rparr>\<rparr>"
  let ?L = "\<lparr>listed = [\<lparr>view_event = early_event, view_categories = [music, technology]\<rparr>,
                     \<lparr>view_event = late_event, view_categories = [music]\<rparr>],
          listed_pagination = \<lparr>pg_total = 2, pg_page = 1, pg_limit = 10, pg_pages = Fin 1\<rparr>\<rparr>"
  have args: "in_list_ok (so_categoryIds sample_search)" "so_page sample_search = 1"
    "so_limit sample_search = 10" "in_list_ok (lo_categoryIds sample_listing)"
    "lo_page sample_listing = 1" "lo_limit sample_listing = 10"
    "so_radius sample_search = real_of_int 5"
    by (simp_all add: sample_search_def sample_listing_def in_list_ok_def)
  note t = pagination_shape [of haversine_m sample_search sample_db ?R sample_listing ?L 5]
  from t sample_search_result
  have c1: "count_events sample_db (location_match haversine_m sample_search sample_db) = 2"
    by simp
  from t sample_listing_result
  have c2: "count_events sample_db (list_match sample_listing sample_db) = 2"
    by simp
  from sample_search_result sample_listing_result args c1 c2 show ?thesis by simp
qed

section \<open>Favourites\<close>

lemma filter_none_keeps_all: "filter P xs = [] \<Longrightarrow> filter (\<lambda>x. \<not> P x) xs = xs"
  by (induction xs) (auto split: if_splits)

text \<open>
  C9. Unfavouriting a pair that is not in the favourites reports "not found" (the
  endpoint answers 404) and leaves the whole store as it was.
\<close>

theorem unfavorite_absent_pair:
  assumes "\<not> Event_isFavorited userId eventId d"
  shows "Event_unfavoriteEvent userId eventId d = (False, d)
         \<and> userController_unfavoriteEvent userId eventId d
             = (\<lparr>res_status = 404, res_success = False, res_message = ''notFound''\<rparr>, d)"
proof -
  from assms have none:
    "filter (\<lambda>f. fav_user_id f = userId \<and> fav_event_id f = eventId) (user_favorite_events d) = []"
    by (simp add: Event_isFavorited_def)
  from filter_none_keeps_all [OF none]
  have model: "Event_unfavoriteEvent userId eventId d = (False, d)"
    by (simp add: Event_unfavoriteEvent_def none)
  then show ?thesis by (simp add: userController_unfavoriteEvent_def)
qed

theorem unfavorite_absent_pair_witness:
  "\<not> Event_isFavorited 7 1 sample_db
   \<and> Event_unfavoriteEvent 7 1 sample_db = (False, sample_db)
   \<and> userController_unfavoriteEvent 7 1 sample_db
       = (\<lparr>res_status = 404, res_success = False, res_message = ''notFound''\<rparr>, sample_db)"
proof -
  have h: "\<not> Event_isFavorited 7 1 sample_db"
    by (simp add: Event_isFavorited_def sample_db_def)
  from unfavorite_absent_pair [OF h] h show ?thesis by simp
qed

section \<open>Reviews\<close>

lemma reviews_after_user_ops:
  "event_reviews (snd (User_create env h u d)) = event_reviews d"
  "event_reviews (snd (User_update env uid u d)) = event_reviews d"
  by (simp_all add: User_create_def User_update_def Let_def split: option.splits prod.splits)

lemma reviews_after_insert_categories:
  "insert_event_categories rows d = Inr d' \<Longrightarrow> event_reviews d' = event_reviews d"
  by (auto simp: insert_event_categories_def split: if_splits)

lemma reviews_after_event_create:
  "event_reviews (snd (Event_create env e d)) = event_reviews d"
  by (auto simp: Event_create_def Let_def split: option.splits prod.splits field.splits sum.splits
      dest: reviews_after_insert_categories)

lemma reviews_after_event_update:
  "event_reviews (snd (Event_update env eid e d)) = event_reviews d"
  by (auto simp: Event_update_def Let_def split: field.splits sum.splits
      dest: reviews_after_insert_categories)

lemma reviews_after_favorites:
  "event_reviews (snd (Event_favoriteEvent env userId eventId d)) = event_reviews d"
  "event_reviews (snd (Event_unfavoriteEvent userId eventId d)) = event_reviews d"
  by (simp_all add: Event_favoriteEvent_def Event_unfavoriteEvent_def Let_def)

lemma pairs_rewrite_comp:
  "(\<lambda>r. (rev_event_id r, rev_user_id r))
     \<circ> (\<lambda>r. if P r then r\<lparr>rev_rating := a, rev_review := b, rev_updated_at := t\<rparr> else r)
   = (\<lambda>r. (rev_event_id r, rev_user_id r))"
  by (auto simp: fun_eq_iff)

lemma addReview_unique:
  assumes "reviews_unique d"
  shows "reviews_unique (snd (Event_addReview env eventId userId rating review d))"
proof (cases "filter (\<lambda>r. rev_event_id r = eventId \<and> rev_user_id r = userId) (event_reviews d) = []")
  case True
  then have "(eventId, userId) \<notin> set (map (\<lambda>r. (rev_event_id r, rev_user_id r)) (event_reviews d))"
    by (auto simp: filter_empty_conv)
  with assms True show ?thesis
    by (simp add: Event_addReview_def Let_def reviews_unique_def)
next
  case False
  with assms show ?thesis
    by (simp add: Event_addReview_def Let_def reviews_unique_def pairs_rewrite_comp)
qed

lemma delete_unique:
  "reviews_unique d \<Longrightarrow> reviews_unique (snd (Event_delete eid d))"
  by (simp add: Event_delete_def cascade_event_delete_def reviews_unique_def distinct_map_filter)

lemma apply_op_unique: "reviews_unique d \<Longrightarrow> reviews_unique (apply_op op d)"
proof (cases op)
  case (EventDelete eid)
  then show "reviews_unique d \<Longrightarrow> reviews_unique (apply_op op d)"
    by (simp add: delete_unique)
next
  case (AddReview env eventId userId rating review)
  then show "reviews_unique d \<Longrightarrow> reviews_unique (apply_op op d)"
    by (simp add: addReview_unique)
qed (simp_all add: reviews_unique_def reviews_after_user_ops
      reviews_after_event_create reviews_after_event_update reviews_after_favorites)

lemma run_ops_unique: "reviews_unique d \<Longrightarrow> reviews_unique (run_ops ops d)"
  unfolding run_ops_def by (induction ops arbitrary: d) (simp_all add: apply_op_unique)

lemma empty_db_unique: "reviews_unique empty_db"
  by (simp add: reviews_unique_def empty_db_def)

lemma addReview_updates:
  assumes "reviews_of d eventId userId \<noteq> []"
  shows "\<exists>r. fst (Event_addReview env eventId userId rating review d) = Inr (Some r)
             \<and> rev_event_id r = eventId \<and> rev_user_id r = userId
             \<and> rev_rating r = rating \<and> rev_review r = to_sql review"
    and "length (event_reviews (snd (Event_addReview env eventId userId rating review d)))
           = length (event_reviews d)"
proof -
  from assms obtain x xs where
    "filter (\<lambda>r. rev_event_id r = eventId \<and> rev_user_id r = userId) (event_reviews d) = x # xs"
    by (cases "filter (\<lambda>r. rev_event_id r = eventId \<and> rev_user_id r = userId) (event_reviews d)")
       (simp_all add: reviews_of_def)
  moreover from this have "rev_event_id x = eventId \<and> rev_user_id x = userId"
    by (auto dest: filter_eq_ConsD)
  ultimately show "\<exists>r. fst (Event_addReview env eventId userId rating review d) = Inr (Some r)
             \<and> rev_event_id r = eventId \<and> rev_user_id r = userId
             \<and> rev_rating r = rating \<and> rev_review r = to_sql review"
    by (simp add: Event_addReview_def Let_def)
  from assms show "length (event_reviews (snd (Event_addReview env eventId userId rating review d)))
           = length (event_reviews d)"
    by (simp add: Event_addReview_def Let_def reviews_of_def)
qed

lemma rewrite_of_pair:
  "filter (\<lambda>r. rev_event_id r = e \<and> rev_user_id r = u)
     (map (\<lambda>r. if rev_event_id r = e \<and> rev_user_id r = u
                then r\<lparr>rev_rating := a, rev_review := b, rev_updated_at := t\<rparr> else r) xs)
   = map (\<lambda>r. r\<lparr>rev_rating := a, rev_review := b, rev_updated_at := t\<rparr>)
       (filter (\<lambda>r. rev_event_id r = e \<and> rev_user_id r = u) xs)"
  by (induction xs) auto

lemma rewrite_of_others:
  assumes "\<And>r. P r \<Longrightarrow> P (f r)"
  shows "filter (\<lambda>r. \<not> P r) (map (\<lambda>r. if P r then f r else r) xs) = filter (\<lambda>r. \<not> P r) xs"
  by (induction xs) (auto simp: assms)

lemma addReview_store:
  assumes "reviews_of d eventId userId \<noteq> []"
  shows "event_reviews (snd (Event_addReview env eventId userId rating review d))
         = map (\<lambda>r. if rev_event_id r = eventId \<and> rev_user_id r = userId
                     then r\<lparr>rev_rating := rating, rev_review := to_sql review, rev_updated_at := now env\<rparr>
                     else r) (event_reviews d)"
  using assms by (simp add: Event_addReview_def Let_def reviews_of_def)

lemma addReview_rewrites:
  assumes "reviews_of d eventId userId \<noteq> []"
  shows "reviews_of (snd (Event_addReview env eventId userId rating review d)) eventId userId
           = map (\<lambda>r. r\<lparr>rev_rating := rating, rev_review := to_sql review, rev_updated_at := now env\<rparr>)
               (reviews_of d eventId userId)"
  using assms by (simp add: Event_addReview_def Let_def reviews_of_def rewrite_of_pair)

lemma addReview_keeps_others:
  assumes "reviews_of d eventId userId \<noteq> []"
  shows "filter (\<lambda>r. \<not> (rev_event_id r = eventId \<and> rev_user_id r = userId))
           (event_reviews (snd (Event_addReview env eventId userId rating review d)))
         = filter (\<lambda>r. \<not> (rev_event_id r = eventId \<and> rev_user_id r = userId)) (event_reviews d)"
  unfolding addReview_store [OF assms] by (rule rewrite_of_others) simp

lemma addReview_inserts:
  assumes "reviews_of d eventId userId = []"
    and "Event_addReview env eventId userId rating review d = (Inr res, d')"
  shows "\<exists>r. res = Some r \<and> event_reviews d' = event_reviews d @ [r]
             \<and> rev_event_id r = eventId \<and> rev_user_id r = userId
             \<and> rev_rating r = rating \<and> rev_review r = to_sql review"
  using assms
  by (auto simp: Event_addReview_def Let_def reviews_of_def split: if_splits)

text \<open>
  C8. The store never holds two reviews of one event by one user: every operation keeps
  the pairs distinct, so they are distinct after any sequence of operations on the empty
  store. When the pair has a review, \<open>Event.addReview\<close> rewrites it in the store: the
  stored review of the pair then carries the new rating, text and update time and is
  otherwise as before, the reviews of other pairs are untouched, and the number of rows
  is as it was. It adds one row only when the pair has none.
\<close>

theorem one_review_per_pair:
  "(reviews_unique d \<longrightarrow> reviews_unique (apply_op op d))
   \<and> reviews_unique (run_ops ops empty_db)
   \<and> (reviews_unique d \<longrightarrow> length (reviews_of d eventId userId) \<le> 1)
   \<and> (reviews_of d eventId userId \<noteq> [] \<longrightarrow>
        (\<exists>r. fst (Event_addReview env eventId userId rating review d) = Inr (Some r)
              \<and> rev_event_id r = eventId \<and> rev_user_id r = userId
              \<and> rev_rating r = rating \<and> rev_review r = to_sql review)
        \<and> length (event_reviews (snd (Event_addReview env eventId userId rating review d)))
            = length (event_reviews d)
        \<and> reviews_of (snd (Event_addReview env eventId userId rating review d)) eventId userId
            = map (\<lambda>r. r\<lparr>rev_rating := rating, rev_review := to_sql review, rev_updated_at := now env\<rparr>)
                (reviews_of d eventId userId)
        \<and> filter (\<lambda>r. \<not> (rev_event_id r = eventId \<and> rev_user_id r = userId))
              (event_reviews (snd (Event_addReview env eventId userId rating review d)))
            = filter (\<lambda>r. \<not> (rev_event_id r = eventId \<and> rev_user_id r = userId)) (event_reviews d))
   \<and> (reviews_of d eventId userId = []
        \<and> Event_addReview env eventId userId rating review d = (Inr res, d') \<longrightarrow>
        (\<exists>r. res = Some r \<and> event_reviews d' = event_reviews d @ [r]
              \<and> rev_event_id r = eventId \<and> rev_user_id r = userId
              \<and> rev_rating r = rating \<and> rev_review r = to_sql review))"
proof (intro conjI impI)
  assume u: "reviews_unique d"
  have "distinct (map (\<lambda>r. (rev_event_id r, rev_user_id r)) (reviews_of d eventId userId))"
    using u by (simp add: reviews_unique_def reviews_of_def distinct_map_filter)
  moreover have "set (map (\<lambda>r. (rev_event_id r, rev_user_id r)) (reviews_of d eventId userId))
                   \<subseteq> {(eventId, userId)}"
    by (auto simp: reviews_of_def)
  ultimately have "length (map (\<lambda>r. (rev_event_id r, rev_user_id r)) (reviews_of d eventId userId))
                     \<le> card {(eventId, userId)}"
    by (metis card_mono distinct_card finite.emptyI finite.insertI)
  then show "length (reviews_of d eventId userId) \<le> 1" by simp
next
  assume ne: "reviews_of d eventId userId \<noteq> []"
  show "reviews_of (snd (Event_addReview env eventId userId rating review d)) eventId userId
          = map (\<lambda>r. r\<lparr>rev_rating := rating, rev_review := to_sql review, rev_updated_at := now env\<rparr>)
              (reviews_of d eventId userId)"
    by (rule addReview_rewrites [OF ne])
  show "filter (\<lambda>r. \<not> (rev_event_id r = eventId \<and> rev_user_id r = userId))
          (event_reviews (snd (Event_addReview env eventId userId rating review d)))
        = filter (\<lambda>r. \<not> (rev_event_id r = eventId \<and> rev_user_id r = userId)) (event_reviews d)"
    by (rule addReview_keeps_others [OF ne])
qed (auto intro: apply_op_unique run_ops_unique empty_db_unique addReview_updates addReview_inserts)

theorem one_review_per_pair_witness:
  "reviews_unique sample_db \<and> reviews_of sample_db 1 7 = []
   \<and> Event_addReview tick 1 7 4 (Val ''Good'') sample_db = (Inr (Some good_review), reviewed_db)
   \<and> event_reviews reviewed_db = event_reviews sample_db @ [good_review]
   \<and> reviews_unique reviewed_db \<and> reviews_of reviewed_db 1 7 \<noteq> []
   \<and> length (reviews_of reviewed_db 1 7) \<le> 1
   \<and> length (event_reviews (apply_op second_review reviewed_db)) = length (event_reviews reviewed_db)
   \<and> reviews_of (apply_op second_review reviewed_db) 1 7 = [changed_review]
   \<and> event_reviews (apply_op second_review reviewed_db) = [changed_review]
   \<and> rev_rating changed_review = 2 \<and> rev_review changed_review = Some ''Changed my mind''
   \<and> reviews_unique (apply_op second_review reviewed_db)"
proof -
  have h: "reviews_unique sample_db" "reviews_of sample_db 1 7 = []"
    "Event_addReview tick 1 7 4 (Val ''Good'') sample_db = (Inr (Some good_review), reviewed_db)"
    "reviews_of reviewed_db 1 7 \<noteq> []"
    "apply_op first_review sample_db = reviewed_db"
    "reviews_of reviewed_db 1 7 = [good_review]"
    "good_review\<lparr>rev_rating := 2, rev_review := to_sql (Val ''Changed my mind''),
        rev_updated_at := now \<lparr>now = 120, new_id = 51\<rparr>\<rparr> = changed_review"
    "event_reviews (apply_op second_review reviewed_db) = [changed_review]"
    "rev_rating changed_review = 2" "rev_review changed_review = Some ''Changed my mind''"
    by code_simp+
  note a = one_review_per_pair [of sample_db first_review "[]" 1 7 tick 4 "Val ''Good''"
      "Some good_review" reviewed_db]
  note b = one_review_per_pair [of reviewed_db second_review "[]" 1 7 "\<lparr>now = 120, new_id = 51\<rparr>" 2
      "Val ''Changed my mind''" None reviewed_db]
  from a h have 1: "reviews_unique reviewed_db"
    and 2: "event_reviews reviewed_db = event_reviews sample_db @ [good_review]"
    by auto
  from b 1 h have 3: "length (reviews_of reviewed_db 1 7) \<le> 1"
    and 4: "length (event_reviews (apply_op second_review reviewed_db)) = length (event_reviews reviewed_db)"
    and 5: "reviews_unique (apply_op second_review reviewed_db)"
    and 6: "reviews_of (apply_op second_review reviewed_db) 1 7 = [changed_review]"
    by (simp_all add: second_review_def)
  from h 1 2 3 4 5 6 show ?thesis by simp
qed

section \<open>Coordinates equal to 0\<close>

lemma events_after_insert_categories:
  "insert_event_categories rows d = Inr d' \<Longrightarrow> events d' = events d"
  by (auto simp: insert_event_categories_def split: if_splits)

lemma zero_not_truthy:
  "a = Val 0 \<or> b = Val 0 \<Longrightarrow> \<not> (truthy_real a \<and> truthy_real b)"
  by auto

lemma create_without_location:
  assumes "ud_latitude userData = Val 0 \<or> ud_longitude userData = Val 0"
    and "User_create env h userData d = (Inr u, d')"
  shows "usr_location u = None \<and> users d' = users d @ [u]"
  using assms(2) zero_not_truthy [OF assms(1)]
  by (auto simp: User_create_def Let_def split: option.splits if_splits)

lemma user_update_keeps_location:
  assumes "ud_latitude userData = Val 0 \<or> ud_longitude userData = Val 0"
  shows "map usr_location (users (snd (User_update env uid userData d))) = map usr_location (users d)"
proof -
  have "usr_location (update_user_row t userData u) = usr_location u" for t u
    using zero_not_truthy [OF assms] by (auto simp: update_user_row_def)
  then show ?thesis
    by (simp add: User_update_def Let_def comp_def cong: map_cong)
qed

lemma event_update_keeps_location:
  assumes "ed_latitude eventData = Val 0 \<or> ed_longitude eventData = Val 0"
  shows "map evt_location (events (snd (Event_update env eid eventData d))) = map evt_location (events d)"
proof -
  have row: "evt_location (update_event_row t eventData e) = evt_location e" for t e
    using zero_not_truthy [OF assms] by (auto simp: update_event_row_def)
  have "map evt_location (map (\<lambda>e. if evt_id e = eid then update_event_row (now env) eventData e else e) (events d))
        = map evt_location (events d)"
    by (simp add: row comp_def cong: map_cong)
  then show ?thesis
    by (auto simp: Event_update_def Let_def split: field.splits sum.splits
        dest!: events_after_insert_categories)
qed

text \<open>
  C10. A latitude or longitude equal to the number 0 makes the location count as absent,
  whatever the other coordinate: \<open>User.create\<close> stores the user with a NULL location,
  and \<open>User.update\<close> and \<open>Event.update\<close> leave every stored location as it was; yet
  \<open>isValidCoordinates\<close> accepts 0 next to any coordinate in range.
\<close>

theorem zero_coordinate_is_absent:
  "(ud_latitude userData = Val 0 \<or> ud_longitude userData = Val 0 \<longrightarrow>
      (User_create env h userData d = (Inr u, d') \<longrightarrow> usr_location u = None \<and> users d' = users d @ [u])
      \<and> map usr_location (users (snd (User_update env uid userData d))) = map usr_location (users d))
   \<and> (ed_latitude eventData = Val 0 \<or> ed_longitude eventData = Val 0 \<longrightarrow>
      map evt_location (events (snd (Event_update env eid eventData d))) = map evt_location (events d))
   \<and> (- 180 \<le> x \<and> x \<le> 180 \<longrightarrow> isValidCoordinates (Fin 0) (Fin x))
   \<and> (- 90 \<le> y \<and> y \<le> 90 \<longrightarrow> isValidCoordinates (Fin y) (Fin 0))"
  using create_without_location [of userData env h d u d']
    user_update_keeps_location [of userData env uid d]
    event_update_keeps_location [of eventData env eid d]
  by (simp add: isValidCoordinates_def js_ge_def)

theorem zero_coordinate_is_absent_witness:
  "ud_latitude equator_user = Val 0
   \<and> User_create tick ''hashedpassword'' equator_user sample_db
       = (Inr bob, sample_db\<lparr>users := users sample_db @ [bob]\<rparr>)
   \<and> usr_location bob = None
   \<and> map usr_location (users (snd (User_update tick 7 equator_user sample_db)))
       = map usr_location (users sample_db)
   \<and> ed_latitude to_equator_renamed = Val 0
   \<and> map evt_title (events (snd (Event_update tick 1 to_equator_renamed sample_db)))
       = [''Equator party'', ''Early show'', ''Far away'']
   \<and> map evt_location (events (snd (Event_update tick 1 to_equator_renamed sample_db)))
       = map evt_location (events sample_db)
   \<and> (- 180 \<le> (10::real) \<and> (10::real) \<le> 180) \<and> isValidCoordinates (Fin 0) (Fin 10)
   \<and> (- 90 \<le> (0::real) \<and> (0::real) \<le> 90) \<and> isValidCoordinates (Fin 0) (Fin 0)"
proof -
  have h: "ud_latitude equator_user = Val 0" "ed_latitude to_equator_renamed = Val 0"
    "User_create tick ''hashedpassword'' equator_user sample_db
       = (Inr bob, sample_db\<lparr>users := users sample_db @ [bob]\<rparr>)"
    "map evt_title (events (snd (Event_update tick 1 to_equator_renamed sample_db)))
       = [''Equator party'', ''Early show'', ''Far away'']"
    by code_simp+
  note t = zero_coordinate_is_absent [of equator_user tick "''hashedpassword''" sample_db bob
      "sample_db\<lparr>users := users sample_db @ [bob]\<rparr>" 7 to_equator_renamed 1 10 0]
  from t h show ?thesis by simp
qed

section \<open>Replacing the categories of an event\<close>

lemma insert_event_categories_rows:
  "insert_event_categories rows d = Inr d' \<Longrightarrow> event_categories d' = event_categories d @ rows"
  by (auto simp: insert_event_categories_def split: if_splits)

text \<open>
  When the update sets at least one column, a supplied category list replaces the
  associations of the event and touches no other event's.
\<close>

lemma update_replaces_categories:
  assumes "\<not> no_event_fields eventData" and "ed_categories eventData = Val cs"
    and "Event_update env eid eventData d = (Inr v, d')"
  shows "category_ids_of_event d' eid = cs"
    and "filter (\<lambda>ec. fst ec \<noteq> eid) (event_categories d') = filter (\<lambda>ec. fst ec \<noteq> eid) (event_categories d)"
proof -
  have a: "filter (\<lambda>ec. fst ec = eid) (filter (\<lambda>ec. fst ec \<noteq> eid) xs) = []" for xs :: "(int \<times> int) list"
    by (induction xs) auto
  have b: "filter (\<lambda>ec. fst ec = eid) (map (\<lambda>categoryId. (eid, categoryId)) cs) = map (\<lambda>categoryId. (eid, categoryId)) cs"
    by (induction cs) auto
  have c: "filter (\<lambda>ec. fst ec \<noteq> eid) (map (\<lambda>categoryId. (eid, categoryId)) cs) = []"
    by (induction cs) auto
  from assms show "category_ids_of_event d' eid = cs"
    by (auto simp: Event_update_def Let_def category_ids_of_event_def a b comp_def
        split: sum.splits if_splits dest!: insert_event_categories_rows)
  from assms show "filter (\<lambda>ec. fst ec \<noteq> eid) (event_categories d') = filter (\<lambda>ec. fst ec \<noteq> eid) (event_categories d)"
    by (auto simp: Event_update_def Let_def c split: sum.splits if_splits dest!: insert_event_categories_rows)
qed

text \<open>
  C3, at the input where the code departs from it: an update that supplies nothing but
  a category list returns the event as it is and leaves its associations in place.
\<close>

theorem update_categories_only_keeps_old:
  "ed_categories categories_only = Val [2]
   \<and> category_ids_of_event sample_db 1 = [1]
   \<and> Event_update tick 1 categories_only sample_db
       = (Inr (Some \<lparr>view_event = late_event, view_categories = [music]\<rparr>), sample_db)
   \<and> category_ids_of_event (snd (Event_update tick 1 categories_only sample_db)) 1 = [1]"
  by code_simp

section \<open>Validation of the end time on update\<close>

lemma update_row_end_time:
  "ed_endTime body = Val t \<Longrightarrow> evt_end_time (update_event_row n body e) = Some t"
  by (simp add: update_event_row_def)

lemma update_row_start_time:
  "ed_startTime body = Undefined \<Longrightarrow> evt_start_time (update_event_row n body e) = evt_start_time e"
  by (simp add: update_event_row_def)

lemma update_row_id: "evt_id (update_event_row n body e) = evt_id e"
  by (simp add: update_event_row_def)

lemma updated_rows_end_time:
  assumes "ed_endTime body = Val t"
  shows "map evt_end_time (filter (\<lambda>e. evt_id e = eid)
           (map (\<lambda>e. if evt_id e = eid then update_event_row n body e else e) xs))
         = map (\<lambda>e. Some t) (filter (\<lambda>e. evt_id e = eid) xs)"
  by (induction xs) (simp_all add: update_row_id update_row_end_time [OF assms])

lemma updated_rows_start_time:
  assumes "ed_startTime body = Undefined"
  shows "map evt_start_time (map (\<lambda>e. if evt_id e = eid then update_event_row n body e else e) xs)
         = map evt_start_time xs"
  by (induction xs) (simp_all add: update_row_start_time [OF assms])

lemma event_update_events:
  assumes "ed_endTime body = Val t" and "Event_update env eid body d = (Inr v, d')"
  shows "events d' = map (\<lambda>e. if evt_id e = eid then update_event_row (now env) body e else e) (events d)"
  using assms
  by (auto simp: Event_update_def Let_def no_event_fields_def split: field.splits sum.splits if_splits
      dest!: events_after_insert_categories)

text \<open>
  C4 (amended). When an update supplies an end time and no start time, the \<open>endTime\<close>
  rule of the validation reports nothing, whatever start time is stored: it compares the
  end time only with a start time of the payload. An update the service then accepts
  stores the supplied end time on the event and changes no start time.
\<close>

theorem endTime_checked_against_payload:
  assumes "ed_startTime body = Undefined" and "ed_endTime body = Val t"
  shows "endTime_rule body = []
         \<and> (EventService_updateEvent env eid body userId d = (Inr v, d') \<longrightarrow>
              map evt_end_time (filter (\<lambda>e. evt_id e = eid) (events d'))
                = map (\<lambda>e. Some t) (filter (\<lambda>e. evt_id e = eid) (events d))
              \<and> map evt_start_time (events d') = map evt_start_time (events d))"
proof (intro conjI impI)
  from assms show "endTime_rule body = []"
    by (simp add: endTime_rule_def endTime_custom_def)
next
  assume "EventService_updateEvent env eid body userId d = (Inr v, d')"
  then have "Event_update env eid body d = (Inr v, d')"
    by (auto simp: EventService_updateEvent_def split: option.splits if_splits prod.splits sum.splits)
  from event_update_events [OF assms(2) this]
  have ev: "events d' = map (\<lambda>e. if evt_id e = eid then update_event_row (now env) body e else e) (events d)" .
  show "map evt_end_time (filter (\<lambda>e. evt_id e = eid) (events d'))
          = map (\<lambda>e. Some t) (filter (\<lambda>e. evt_id e = eid) (events d))"
    unfolding ev by (rule updated_rows_end_time [OF assms(2)])
  show "map evt_start_time (events d') = map evt_start_time (events d)"
    unfolding ev by (rule updated_rows_start_time [OF assms(1)])
qed

theorem endTime_checked_against_payload_witness:
  "ed_startTime end_only = Undefined \<and> ed_endTime end_only = Val 500
   \<and> endTime_rule end_only = []
   \<and> EventService_updateEvent tick 1 end_only 7 sample_db
       = (Inr (Some \<lparr>view_event = shortened_event, view_categories = [music]\<rparr>),
          sample_db\<lparr>events := [shortened_event, early_event, far_event]\<rparr>)
   \<and> map evt_end_time (filter (\<lambda>e. evt_id e = 1) [shortened_event, early_event, far_event])
       = map (\<lambda>e. Some 500) (filter (\<lambda>e. evt_id e = 1) (events sample_db))
   \<and> map evt_start_time [shortened_event, early_event, far_event] = map evt_start_time (events sample_db)"
proof -
  have h: "ed_startTime end_only = Undefined" "ed_endTime end_only = Val 500"
    "EventService_updateEvent tick 1 end_only 7 sample_db
       = (Inr (Some \<lparr>view_event = shortened_event, view_categories = [music]\<rparr>),
          sample_db\<lparr>events := [shortened_event, early_event, far_event]\<rparr>)"
    by code_simp+
  note t = endTime_checked_against_payload [OF h(1) h(2), of tick 1 7 sample_db
      "Some \<lparr>view_event = shortened_event, view_categories = [music]\<rparr>"
      "sample_db\<lparr>events := [shortened_event, early_event, far_event]\<rparr>"]
  from t h show ?thesis by simp
qed

theorem endTime_before_stored_start_counterexample:
  "ed_startTime end_only = Undefined \<and> ed_endTime end_only = Val 500
   \<and> Event_getById 1 sample_db = Some \<lparr>view_event = late_event, view_categories = [music]\<rparr>
   \<and> evt_start_time late_event = 2000
   \<and> endTime_rule end_only = []
   \<and> EventService_updateEvent tick 1 end_only 7 sample_db
       = (Inr (Some \<lparr>view_event = shortened_event, view_categories = [music]\<rparr>),
          sample_db\<lparr>events := [shortened_event, early_event, far_event]\<rparr>)
   \<and> evt_end_time shortened_event = Some 500 \<and> evt_start_time shortened_event = 2000"
  by code_simp

end
